theory Spec2Isabelle
  imports Complex_Main "HOL-Library.Log_Nat"
begin

section \<open>Strings\<close>

text \<open>
  A JavaScript string is modelled as a \<^typ>\<open>string\<close>: a list of code units, each below 256.
  Identifiers (guild, channel, role and user ids), channel names and command texts of the
  bot are ASCII.
\<close>

text \<open>\<^verbatim>\<open>s.split(c)\<close> for a one-character separator: never the empty list.\<close>

fun split_on :: "char \<Rightarrow> string \<Rightarrow> string list" where
  "split_on c [] = [[]]"
| "split_on c (x # xs) =
     (if x = c then [] # split_on c xs
      else (case split_on c xs of [] \<Rightarrow> [[x]] | p # ps \<Rightarrow> (x # p) # ps))"

definition is_digit :: "char \<Rightarrow> bool" where
  "is_digit c = (let n = (of_char c :: nat) in 48 \<le> n \<and> n \<le> 57)"

text \<open>\<^verbatim>\<open>toLowerCase\<close> on one code unit below 256: A-Z, and the Latin-1 capitals
  (192 to 222, without the multiplication sign 215).\<close>

definition lower_char :: "char \<Rightarrow> char" where
  "lower_char c =
     (let n = (of_char c :: nat)
      in if (65 \<le> n \<and> n \<le> 90) \<or> (192 \<le> n \<and> n \<le> 222 \<and> n \<noteq> 215)
         then char_of (n + 32) else c)"

definition toLowerCase :: "string \<Rightarrow> string" where
  "toLowerCase s = map lower_char s"

text \<open>\<^verbatim>\<open>s.startsWith(p)\<close>.\<close>

definition startsWith :: "string \<Rightarrow> string \<Rightarrow> bool" where
  "startsWith s p = (take (length p) s = p)"

text \<open>The white space of \<^verbatim>\<open>\s\<close> and of \<^verbatim>\<open>trim\<close> among the code units below 256:
  tab, line feed, vertical tab, form feed, carriage return, space, no-break space.\<close>

definition is_space :: "char \<Rightarrow> bool" where
  "is_space c = (of_char c \<in> {9, 10, 11, 12, 13, 32, 160 :: nat})"

definition trim :: "string \<Rightarrow> string" where
  "trim s = rev (dropWhile is_space (rev (dropWhile is_space s)))"

text \<open>\<^verbatim>\<open>s.split(/\s+/).filter(Boolean)\<close>: the maximal runs of non-space code units.\<close>

fun words_acc :: "string \<Rightarrow> string \<Rightarrow> string list" where
  "words_acc cur [] = (if cur = [] then [] else [rev cur])"
| "words_acc cur (x # xs) =
     (if is_space x then (if cur = [] then words_acc [] xs else rev cur # words_acc [] xs)
      else words_acc (x # cur) xs)"

definition split_ws :: "string \<Rightarrow> string list" where
  "split_ws s = words_acc [] s"

section \<open>Guild configuration\<close>

text \<open>\<^verbatim>\<open>isValidSnowflake\<close>: a string matching \<^verbatim>\<open>/^[0-9]{15,25}$/\<close>.\<close>

definition isValidSnowflake :: "string \<Rightarrow> bool" where
  "isValidSnowflake s = (15 \<le> length s \<and> length s \<le> 25 \<and> (\<forall>c \<in> set s. is_digit c))"

definition normalizeArray :: "string list option \<Rightarrow> string list" where
  "normalizeArray arr = (case arr of None \<Rightarrow> [] | Some xs \<Rightarrow> filter isValidSnowflake xs)"

text \<open>
  One entry of \<^verbatim>\<open>GUILD_CONFIGS\<close>, as it is stored. An id is \<open>None\<close> when the key is
  absent or \<^verbatim>\<open>null\<close>; a toggle is \<open>None\<close> when the key is absent (\<^verbatim>\<open>undefined\<close>);
  a role list is \<open>None\<close> when the key is absent.
\<close>

record stored_config =
  s_supportCategoryId :: "string option"
  s_mmCategoryId :: "string option"
  s_logChannelId :: "string option"
  s_supportEnabled :: "bool option"
  s_tradeEnabled :: "bool option"
  s_logsEnabled :: "bool option"
  s_supportRoles :: "string list option"
  s_mmRoles :: "string list option"
  s_adminRoles :: "string list option"
  s_supportDescription :: "string option"
  s_tradeDescription :: "string option"

text \<open>The object \<^verbatim>\<open>getGuildConfig\<close> returns.\<close>

record guild_config =
  supportCategoryId :: "string option"
  mmCategoryId :: "string option"
  logChannelId :: "string option"
  supportEnabled :: bool
  tradeEnabled :: bool
  logsEnabled :: bool
  supportRoles :: "string list"
  mmRoles :: "string list"
  adminRoles :: "string list"
  supportDescription :: "string option"
  tradeDescription :: "string option"

type_synonym guild_configs = "string \<rightharpoonup> stored_config"

text \<open>The empty object \<^verbatim>\<open>{}\<close> that stands for a guild with no entry.\<close>

definition empty_config :: stored_config where
  "empty_config =
     \<lparr> s_supportCategoryId = None, s_mmCategoryId = None, s_logChannelId = None,
       s_supportEnabled = None, s_tradeEnabled = None, s_logsEnabled = None,
       s_supportRoles = None, s_mmRoles = None, s_adminRoles = None,
       s_supportDescription = None, s_tradeDescription = None \<rparr>"

text \<open>JavaScript truthiness of an optional string: neither missing nor empty.\<close>

definition truthy :: "string option \<Rightarrow> bool" where
  "truthy v = (case v of None \<Rightarrow> False | Some s \<Rightarrow> s \<noteq> [])"

definition getGuildConfig :: "guild_configs \<Rightarrow> string \<Rightarrow> guild_config" where
  "getGuildConfig cfgs guildId =
     (let saved = (case cfgs guildId of None \<Rightarrow> empty_config | Some s \<Rightarrow> s);
          inferredSupportEnabled =
            (case s_supportEnabled saved of Some b \<Rightarrow> b | None \<Rightarrow> truthy (s_supportCategoryId saved));
          inferredTradeEnabled =
            (case s_tradeEnabled saved of Some b \<Rightarrow> b | None \<Rightarrow> truthy (s_mmCategoryId saved));
          inferredLogsEnabled =
            (case s_logsEnabled saved of Some b \<Rightarrow> b | None \<Rightarrow> truthy (s_logChannelId saved))
      in \<lparr> supportCategoryId = s_supportCategoryId saved,
           mmCategoryId = s_mmCategoryId saved,
           logChannelId = s_logChannelId saved,
           supportEnabled = inferredSupportEnabled,
           tradeEnabled = inferredTradeEnabled,
           logsEnabled = inferredLogsEnabled,
           supportRoles = normalizeArray (s_supportRoles saved),
           mmRoles = normalizeArray (s_mmRoles saved),
           adminRoles = normalizeArray (s_adminRoles saved),
           supportDescription = s_supportDescription saved,
           tradeDescription = s_tradeDescription saved \<rparr>)"

text \<open>
  A patch given to \<^verbatim>\<open>saveGuildConfig\<close>: each field is \<open>None\<close> when the key is not in
  the patch. A patch with the key \<^verbatim>\<open>panelText\<close> replaces both descriptions.
\<close>

record config_patch =
  p_supportCategoryId :: "string option option"
  p_mmCategoryId :: "string option option"
  p_logChannelId :: "string option option"
  p_supportEnabled :: "bool option"
  p_tradeEnabled :: "bool option"
  p_logsEnabled :: "bool option"
  p_supportRoles :: "string list option"
  p_mmRoles :: "string list option"
  p_adminRoles :: "string list option"
  p_panelText :: "(string option \<times> string option) option"

definition empty_patch :: config_patch where
  "empty_patch =
     \<lparr> p_supportCategoryId = None, p_mmCategoryId = None, p_logChannelId = None,
       p_supportEnabled = None, p_tradeEnabled = None, p_logsEnabled = None,
       p_supportRoles = None, p_mmRoles = None, p_adminRoles = None, p_panelText = None \<rparr>"

text \<open>\<^verbatim>\<open>{ ...current, ...patch }\<close> on one key.\<close>

definition over :: "'a \<Rightarrow> 'a option \<Rightarrow> 'a" where
  "over cur p = (case p of None \<Rightarrow> cur | Some v \<Rightarrow> v)"

text \<open>
  \<^verbatim>\<open>saveGuildConfig\<close>: the merged object is what is stored, so every key of the stored
  entry is present afterwards. The write to disk is scheduled and is no part of the
  in-memory state modelled here.
\<close>

definition saveGuildConfig :: "guild_configs \<Rightarrow> string \<Rightarrow> config_patch \<Rightarrow> guild_configs \<times> guild_config" where
  "saveGuildConfig cfgs guildId patch =
     (let current = getGuildConfig cfgs guildId;
          next =
            \<lparr> supportCategoryId = over (supportCategoryId current) (p_supportCategoryId patch),
              mmCategoryId = over (mmCategoryId current) (p_mmCategoryId patch),
              logChannelId = over (logChannelId current) (p_logChannelId patch),
              supportEnabled = over (supportEnabled current) (p_supportEnabled patch),
              tradeEnabled = over (tradeEnabled current) (p_tradeEnabled patch),
              logsEnabled = over (logsEnabled current) (p_logsEnabled patch),
              supportRoles =
                (case p_supportRoles patch of None \<Rightarrow> supportRoles current
                 | Some r \<Rightarrow> normalizeArray (Some r)),
              mmRoles =
                (case p_mmRoles patch of None \<Rightarrow> mmRoles current
                 | Some r \<Rightarrow> normalizeArray (Some r)),
              adminRoles =
                (case p_adminRoles patch of None \<Rightarrow> adminRoles current
                 | Some r \<Rightarrow> normalizeArray (Some r)),
              supportDescription =
                (case p_panelText patch of None \<Rightarrow> supportDescription current | Some t \<Rightarrow> fst t),
              tradeDescription =
                (case p_panelText patch of None \<Rightarrow> tradeDescription current | Some t \<Rightarrow> snd t) \<rparr>;
          stored =
            \<lparr> s_supportCategoryId = supportCategoryId next,
              s_mmCategoryId = mmCategoryId next,
              s_logChannelId = logChannelId next,
              s_supportEnabled = Some (supportEnabled next),
              s_tradeEnabled = Some (tradeEnabled next),
              s_logsEnabled = Some (logsEnabled next),
              s_supportRoles = Some (supportRoles next),
              s_mmRoles = Some (mmRoles next),
              s_adminRoles = Some (adminRoles next),
              s_supportDescription = supportDescription next,
              s_tradeDescription = tradeDescription next \<rparr>
      in (cfgs(guildId \<mapsto> stored), next))"

section \<open>Ticket topics\<close>

text \<open>
  \<^verbatim>\<open>makeTopic(openerId, claimerId = null)\<close>. The template prints a \<^verbatim>\<open>null\<close> opener as
  the text \<^verbatim>\<open>null\<close>; \<^verbatim>\<open>claimerId ?? "null"\<close> does the same for the claimer.
\<close>

definition makeTopic :: "string option \<Rightarrow> string option \<Rightarrow> string" where
  "makeTopic openerId claimerId =
     ''opened:'' @ (case openerId of None \<Rightarrow> ''null'' | Some s \<Rightarrow> s)
       @ '';claimed:'' @ (case claimerId of None \<Rightarrow> ''null'' | Some s \<Rightarrow> s)"

record topic_info =
  opened :: "string option"
  claimed :: "string option"

text \<open>One round of the loop of \<^verbatim>\<open>parseTopic\<close>: \<^verbatim>\<open>[k, v]\<close> are the first two pieces of
  the part, \<^verbatim>\<open>v\<close> being \<^verbatim>\<open>undefined\<close> when there is one piece only.\<close>

definition parseTopic_part :: "topic_info \<Rightarrow> string list \<Rightarrow> topic_info" where
  "parseTopic_part def kv =
     (let k = (case kv of [] \<Rightarrow> None | a # _ \<Rightarrow> Some a);
          v = (case kv of _ # b # _ \<Rightarrow> Some b | _ \<Rightarrow> None);
          d1 = (if k = Some ''opened''
                then def\<lparr>opened := (if truthy v then v else None)\<rparr> else def)
      in if k = Some ''claimed''
         then d1\<lparr>claimed := (if truthy v \<and> v \<noteq> Some ''null'' then v else None)\<rparr> else d1)"

definition parseTopic :: "string option \<Rightarrow> topic_info" where
  "parseTopic topic =
     (let def = \<lparr> opened = None, claimed = None \<rparr>
      in case topic of None \<Rightarrow> def
         | Some t \<Rightarrow>
             if t = [] then def
             else foldl parseTopic_part def (map (split_on CHR '':'') (split_on CHR '';'' t)))"

section \<open>Members, channels and who may manage a ticket\<close>

datatype channel_type = GuildText | OtherChannel

text \<open>What the handlers read of a channel and what they edit: topic and name.\<close>

record channel =
  c_type :: channel_type
  c_guildId :: string
  c_parentId :: "string option"
  c_topic :: "string option"
  c_name :: string

text \<open>A guild member: the user id, the guild, and the ids of the roles held.\<close>

record member =
  m_id :: string
  m_guildId :: string
  m_roles :: "string list"

definition isAdmin :: "guild_configs \<Rightarrow> member \<Rightarrow> bool" where
  "isAdmin cfgs m =
     (let cfg = getGuildConfig cfgs (m_guildId m); list = adminRoles cfg
      in \<exists>r \<in> set (m_roles m). r \<in> set list)"

definition isSupport :: "guild_configs \<Rightarrow> member \<Rightarrow> bool" where
  "isSupport cfgs m =
     (let cfg = getGuildConfig cfgs (m_guildId m); list = supportRoles cfg
      in \<exists>r \<in> set (m_roles m). r \<in> set list)"

definition isTradeStaff :: "guild_configs \<Rightarrow> member \<Rightarrow> bool" where
  "isTradeStaff cfgs m =
     (let cfg = getGuildConfig cfgs (m_guildId m); list = mmRoles cfg
      in \<exists>r \<in> set (m_roles m). r \<in> set list)"

text \<open>\<^verbatim>\<open>canManageTicket\<close>. The parent of a channel outside every category is
  \<^verbatim>\<open>null\<close>, and so is a category id that was never set: \<^verbatim>\<open>===\<close> holds of the two.\<close>

definition canManageTicket :: "guild_configs \<Rightarrow> member \<Rightarrow> channel \<Rightarrow> bool" where
  "canManageTicket cfgs m ch =
     (if c_type ch \<noteq> GuildText then False
      else if isAdmin cfgs m then True
      else let cfg = getGuildConfig cfgs (c_guildId ch); parentId = c_parentId ch
           in if parentId = supportCategoryId cfg then isSupport cfgs m
              else if parentId = mmCategoryId cfg then isSupport cfgs m \<or> isTradeStaff cfgs m
              else False)"

definition isTicketChannel :: "guild_configs \<Rightarrow> channel \<Rightarrow> bool" where
  "isTicketChannel cfgs ch =
     (if c_type ch \<noteq> GuildText then False
      else let cfg = getGuildConfig cfgs (c_guildId ch)
           in if truthy (supportCategoryId cfg) \<and> c_parentId ch = supportCategoryId cfg then True
              else if truthy (mmCategoryId cfg) \<and> c_parentId ch = mmCategoryId cfg then True
              else if truthy (opened (parseTopic (c_topic ch))) then True
              else let name = toLowerCase (c_name ch)
                   in startsWith name ''ticket-'' \<or> startsWith name ''support-''
                      \<or> startsWith name ''trade-'' \<or> startsWith name ''mm-'')"

section \<open>Premium state\<close>

text \<open>
  Instants are milliseconds since the epoch. A stored date is a text: \<open>ISO t\<close> stands for
  a text that \<^verbatim>\<open>Date.parse\<close> reads as the instant \<open>t\<close> (what \<^verbatim>\<open>toISOString\<close> writes for
  \<open>t\<close>), \<open>Unparsable\<close> for a non-empty text that \<^verbatim>\<open>Date.parse\<close> maps to \<^verbatim>\<open>NaN\<close>. A
  field holding a date is \<open>None\<close> when it is absent, \<^verbatim>\<open>null\<close> or empty.
\<close>

datatype date_text = ISO int | Unparsable

datatype js_error = RangeError | ReferenceError

definition Date_parse :: "date_text \<Rightarrow> int option" where
  "Date_parse d = (case d of ISO t \<Rightarrow> Some t | Unparsable \<Rightarrow> None)"

text \<open>A \<^verbatim>\<open>Date\<close> holds an instant of at most 8.64e15 ms either side of the epoch;
  \<^verbatim>\<open>toISOString\<close> throws a \<^verbatim>\<open>RangeError\<close> on any other.\<close>

definition valid_time :: "int \<Rightarrow> bool" where
  "valid_time t = (- 8640000000000000 \<le> t \<and> t \<le> 8640000000000000)"

definition toISOString :: "int \<Rightarrow> js_error + date_text" where
  "toISOString t = (if valid_time t then Inr (ISO t) else Inl RangeError)"

record branding_raw =
  b_name :: "string option"
  b_iconUrl :: "string option"
  b_accent :: "string option"

text \<open>
  The stored feature flags that \<^verbatim>\<open>getPremiumState\<close> reads one by one. The ping
  settings and the list of close reasons are left out: no handler below reads them.
\<close>

record features_raw =
  f_ticketNameTemplate :: "string option"
  f_welcomeMessage :: "string option"
  f_botNickname :: "string option"
  f_transcripts :: bool
  f_transcriptChannelId :: "string option"
  f_autoCloseMinutes :: "int option"
  f_autoTagClaims :: bool
  f_prioritySupport :: bool

text \<open>One entry of \<^verbatim>\<open>PREMIUM_GUILDS\<close>. A missing \<^verbatim>\<open>isPremium\<close> reads as false
  everywhere, so the field is a \<^typ>\<open>bool\<close>.\<close>

record premium_raw =
  r_isPremium :: bool
  r_plan :: "string option"
  r_activatedAt :: "date_text option"
  r_expiresAt :: "date_text option"
  r_branding :: branding_raw
  r_features :: features_raw

type_synonym premium_guilds = "string \<rightharpoonup> premium_raw"

definition empty_branding :: branding_raw where
  "empty_branding = \<lparr> b_name = None, b_iconUrl = None, b_accent = None \<rparr>"

definition empty_features :: features_raw where
  "empty_features =
     \<lparr> f_ticketNameTemplate = None, f_welcomeMessage = None, f_botNickname = None,
       f_transcripts = False, f_transcriptChannelId = None, f_autoCloseMinutes = None,
       f_autoTagClaims = False, f_prioritySupport = False \<rparr>"

definition empty_premium :: premium_raw where
  "empty_premium =
     \<lparr> r_isPremium = False, r_plan = None, r_activatedAt = None, r_expiresAt = None,
       r_branding = empty_branding, r_features = empty_features \<rparr>"

text \<open>\<^verbatim>\<open>ensurePremiumActiveOrExpire\<close>, with \<^verbatim>\<open>Date.now()\<close> as the argument \<open>now\<close>.\<close>

definition ensurePremiumActiveOrExpire :: "premium_guilds \<Rightarrow> string \<Rightarrow> int \<Rightarrow> premium_guilds" where
  "ensurePremiumActiveOrExpire guilds guildId now =
     (case guilds guildId of
        None \<Rightarrow> guilds
      | Some s \<Rightarrow>
          if \<not> r_isPremium s then guilds
          else (case r_expiresAt s of
                  None \<Rightarrow> guilds
                | Some e \<Rightarrow>
                    (case Date_parse e of
                       None \<Rightarrow> guilds
                     | Some ms \<Rightarrow>
                         if now > ms then guilds(guildId \<mapsto> s\<lparr>r_isPremium := False\<rparr>)
                         else guilds)))"

record branding =
  name :: string
  iconUrl :: "string option"
  accent :: "string option"

record features =
  ticketNameTemplate :: string
  welcomeMessage :: string
  botNickname :: "string option"
  transcripts :: bool
  transcriptChannelId :: "string option"
  autoCloseMinutes :: int
  autoTagClaims :: bool
  prioritySupport :: bool

record premium_state =
  isPremium :: bool
  plan :: "string option"
  activatedAt :: "date_text option"
  expiresAt :: "date_text option"
  brand :: branding
  feats :: features

text \<open>\<^verbatim>\<open>getPremiumState\<close>: the demotion first, then the stored entry read with its
  defaults. It returns the store as the demotion left it, and the state.\<close>

definition getPremiumState :: "premium_guilds \<Rightarrow> string \<Rightarrow> int \<Rightarrow> premium_guilds \<times> premium_state" where
  "getPremiumState guilds guildId now =
     (let guilds' = ensurePremiumActiveOrExpire guilds guildId now;
          raw = (case guilds' guildId of None \<Rightarrow> empty_premium | Some r \<Rightarrow> r);
          b = r_branding raw;
          f = r_features raw
      in (guilds',
          \<lparr> isPremium = r_isPremium raw,
            plan = (if truthy (r_plan raw) then r_plan raw else None),
            activatedAt = r_activatedAt raw,
            expiresAt = r_expiresAt raw,
            brand =
              \<lparr> name = (case b_name b of
                           None \<Rightarrow> ''Nozzarri Tickets''
                         | Some n \<Rightarrow> if trim n \<noteq> [] then n else ''Nozzarri Tickets''),
                iconUrl = b_iconUrl b,
                accent = b_accent b \<rparr>,
            feats =
              \<lparr> ticketNameTemplate =
                  (case f_ticketNameTemplate f of
                     None \<Rightarrow> ''ticket-{user}''
                   | Some t \<Rightarrow> if trim t \<noteq> [] then t else ''ticket-{user}''),
                welcomeMessage = (case f_welcomeMessage f of None \<Rightarrow> [] | Some w \<Rightarrow> w),
                botNickname = f_botNickname f,
                transcripts = f_transcripts f,
                transcriptChannelId = f_transcriptChannelId f,
                autoCloseMinutes = (case f_autoCloseMinutes f of None \<Rightarrow> 0 | Some n \<Rightarrow> n),
                autoTagClaims = f_autoTagClaims f,
                prioritySupport = f_prioritySupport f \<rparr> \<rparr>))"

text \<open>A patch given to \<^verbatim>\<open>savePremiumState\<close>: \<open>None\<close> for a key that is not in it.\<close>

record branding_patch =
  bp_name :: "string option option"
  bp_iconUrl :: "string option option"
  bp_accent :: "string option option"

record features_patch =
  fp_ticketNameTemplate :: "string option option"
  fp_welcomeMessage :: "string option option"
  fp_botNickname :: "string option option"
  fp_transcripts :: "bool option"
  fp_transcriptChannelId :: "string option option"
  fp_autoCloseMinutes :: "int option option"
  fp_autoTagClaims :: "bool option"
  fp_prioritySupport :: "bool option"

record premium_patch =
  pp_isPremium :: "bool option"
  pp_plan :: "string option option"
  pp_activatedAt :: "date_text option option"
  pp_expiresAt :: "date_text option option"
  pp_branding :: "branding_patch option"
  pp_features :: "features_patch option"

definition merge_branding :: "branding_raw \<Rightarrow> branding_patch option \<Rightarrow> branding_raw" where
  "merge_branding b p =
     (case p of
        None \<Rightarrow> b
      | Some q \<Rightarrow>
          \<lparr> b_name = over (b_name b) (bp_name q),
            b_iconUrl = over (b_iconUrl b) (bp_iconUrl q),
            b_accent = over (b_accent b) (bp_accent q) \<rparr>)"

definition merge_features :: "features_raw \<Rightarrow> features_patch option \<Rightarrow> features_raw" where
  "merge_features f p =
     (case p of
        None \<Rightarrow> f
      | Some q \<Rightarrow>
          \<lparr> f_ticketNameTemplate = over (f_ticketNameTemplate f) (fp_ticketNameTemplate q),
            f_welcomeMessage = over (f_welcomeMessage f) (fp_welcomeMessage q),
            f_botNickname = over (f_botNickname f) (fp_botNickname q),
            f_transcripts = over (f_transcripts f) (fp_transcripts q),
            f_transcriptChannelId = over (f_transcriptChannelId f) (fp_transcriptChannelId q),
            f_autoCloseMinutes = over (f_autoCloseMinutes f) (fp_autoCloseMinutes q),
            f_autoTagClaims = over (f_autoTagClaims f) (fp_autoTagClaims q),
            f_prioritySupport = over (f_prioritySupport f) (fp_prioritySupport q) \<rparr>)"

text \<open>\<^verbatim>\<open>savePremiumState\<close>: merge, store, and return what \<^verbatim>\<open>getPremiumState\<close> then
  reads (the demotion included).\<close>

definition savePremiumState ::
  "premium_guilds \<Rightarrow> string \<Rightarrow> premium_patch \<Rightarrow> int \<Rightarrow> premium_guilds \<times> premium_state" where
  "savePremiumState guilds guildId patch now =
     (let raw = (case guilds guildId of None \<Rightarrow> empty_premium | Some r \<Rightarrow> r);
          nextRaw =
            \<lparr> r_isPremium = over (r_isPremium raw) (pp_isPremium patch),
              r_plan = over (r_plan raw) (pp_plan patch),
              r_activatedAt = over (r_activatedAt raw) (pp_activatedAt patch),
              r_expiresAt = over (r_expiresAt raw) (pp_expiresAt patch),
              r_branding = merge_branding (r_branding raw) (pp_branding patch),
              r_features = merge_features (r_features raw) (pp_features patch) \<rparr>
      in getPremiumState (guilds(guildId \<mapsto> nextRaw)) guildId now)"

section \<open>License keys and their redemption\<close>

text \<open>One entry of \<^verbatim>\<open>PREMIUM_KEYS\<close>. A duration is \<open>None\<close> when the stored value is
  not a finite number; the durations \<^verbatim>\<open>?premium-gen\<close> writes are whole numbers.\<close>

record license_key =
  k_plan :: "string option"
  k_durationMs :: "int option"
  k_durationDays :: "int option"
  k_durationLabel :: "string option"
  k_createdAt :: "date_text option"
  k_createdBy :: "string option"
  k_used :: bool
  k_usedByGuildId :: "string option"
  k_usedAt :: "date_text option"

text \<open>
  The store of keys is a map over the keys it holds itself. A name that every JavaScript
  object inherits (\<^verbatim>\<open>constructor\<close>, \<^verbatim>\<open>toString\<close> and the like) is no key of the map; what
  the handler does when such a name is given as a key is not modelled.
\<close>

type_synonym premium_keys = "string \<rightharpoonup> license_key"

text \<open>What the handler reads of a message: whether a bot wrote it, the guild (its id and
  its owner's id) when there is one, the author's id, the text.\<close>

record message =
  msg_bot :: bool
  msg_guild :: "(string \<times> string) option"
  msg_author :: string
  msg_content :: string

datatype redeem_reply =
  Ignored | OwnerOnly | Usage | InvalidKey | KeyAlreadyUsed | PremiumActivated

text \<open>The local \<^verbatim>\<open>addMs\<close>: the duration in milliseconds when the key has one, else its
  days (30 when it has none either).\<close>

definition key_addMs :: "license_key \<Rightarrow> int" where
  "key_addMs k =
     (case k_durationMs k of
        Some d \<Rightarrow> d
      | None \<Rightarrow> (case k_durationDays k of Some d \<Rightarrow> d | None \<Rightarrow> 30) * 24 * 60 * 60 * 1000)"

text \<open>The local \<^verbatim>\<open>base\<close>: the current expiry when it parses to an instant after
  \<open>now\<close>, else \<open>now\<close>.\<close>

definition redeem_base :: "premium_raw \<Rightarrow> int \<Rightarrow> int" where
  "redeem_base current now =
     (case r_expiresAt current of
        None \<Rightarrow> now
      | Some e \<Rightarrow>
          (case Date_parse e of
             None \<Rightarrow> now
           | Some curMs \<Rightarrow> if curMs > now then curMs else now))"

text \<open>
  The branch \<^verbatim>\<open>?premium-redeem\<close> of the message handler. The clock is read as \<open>now\<close>
  throughout one run. A \<^verbatim>\<open>RangeError\<close> of \<^verbatim>\<open>toISOString\<close> leaves the handler after the
  key was marked and before the premium state is written.
\<close>

definition premium_redeem ::
  "premium_keys \<Rightarrow> premium_guilds \<Rightarrow> int \<Rightarrow> message
     \<Rightarrow> premium_keys \<times> premium_guilds \<times> (js_error + redeem_reply)" where
  "premium_redeem keys guilds now msg =
     (let content = trim (msg_content msg)
      in if msg_bot msg \<or> \<not> startsWith content ''?premium-redeem'' then (keys, guilds, Inr Ignored)
         else (case msg_guild msg of
                 None \<Rightarrow> (keys, guilds, Inr Ignored)
               | Some (guildId, ownerId) \<Rightarrow>
                   if msg_author msg \<noteq> ownerId then (keys, guilds, Inr OwnerOnly)
                   else (case drop 1 (split_ws content) of
                           [] \<Rightarrow> (keys, guilds, Inr Usage)
                         | key # _ \<Rightarrow>
                             (case keys key of
                                None \<Rightarrow> (keys, guilds, Inr InvalidKey)
                              | Some k \<Rightarrow>
                                  if k_used k then (keys, guilds, Inr KeyAlreadyUsed)
                                  else
                                    let keys' = keys(key \<mapsto>
                                          k\<lparr> k_used := True, k_usedByGuildId := Some guildId,
                                             k_usedAt := Some (ISO now) \<rparr>);
                                        addMs = key_addMs k;
                                        current = (case guilds guildId of
                                                     None \<Rightarrow> empty_premium | Some r \<Rightarrow> r);
                                        base = redeem_base current now
                                    in (case toISOString (base + addMs) of
                                          Inl err \<Rightarrow> (keys', guilds, Inl err)
                                        | Inr nextExpiresAt \<Rightarrow>
                                            let patch =
                                                  \<lparr> pp_isPremium = Some True,
                                                    pp_plan = Some (if truthy (k_plan k) then k_plan k
                                                                    else Some ''custom''),
                                                    pp_activatedAt =
                                                      Some (case r_activatedAt current of
                                                              Some a \<Rightarrow> Some a
                                                            | None \<Rightarrow> Some (ISO now)),
                                                    pp_expiresAt = Some (Some nextExpiresAt),
                                                    pp_branding = None,
                                                    pp_features = None \<rparr>
                                            in (keys', fst (savePremiumState guilds guildId patch now),
                                                Inr PremiumActivated))))))"

text \<open>
  What it is for a message to be a redemption of \<open>key\<close> by the owner of the guild
  \<open>guildId\<close>: a person wrote it in that guild and owns the guild, the text starts with
  \<^verbatim>\<open>?premium-redeem\<close>, and its second word is the key.
\<close>

definition redeem_request :: "message \<Rightarrow> string \<Rightarrow> string \<Rightarrow> bool" where
  "redeem_request msg guildId key =
     (\<not> msg_bot msg \<and> msg_guild msg = Some (guildId, msg_author msg)
      \<and> startsWith (trim (msg_content msg)) ''?premium-redeem''
      \<and> (case drop 1 (split_ws (trim (msg_content msg))) of [] \<Rightarrow> False | w # _ \<Rightarrow> w = key))"

section \<open>Claiming and releasing a ticket\<close>

datatype ticket_reply =
  NotInTicket | InvalidChannel | NotAllowed | AlreadyClaimed | NotClaimed
  | OnlyClaimerOrAdmin string | TicketClaimed | TicketUnclaimed

text \<open>The replies that refuse an actor for who they are.\<close>

fun forbidden :: "ticket_reply \<Rightarrow> bool" where
  "forbidden NotAllowed = True"
| "forbidden (OnlyClaimerOrAdmin _) = True"
| "forbidden _ = False"

text \<open>\<^verbatim>\<open>name.replace(/^claimed-+/i, "")\<close>.\<close>

definition strip_claimed :: "string \<Rightarrow> string" where
  "strip_claimed n =
     (if toLowerCase (take 8 n) = ''claimed-'' then dropWhile (\<lambda>c. c = CHR ''-'') (drop 8 n) else n)"

text \<open>
  The handlers read the topic and the name that the client holds for the channel when they
  run. The calls that edit the channel (\<^verbatim>\<open>setTopic\<close>, \<^verbatim>\<open>setName\<close>) are taken to be carried
  out by the platform: the handlers return the channel as edited. A failure of such a call
  is discarded (\<^verbatim>\<open>.catch(() => {})\<close>) and the reply does not depend on it; a handler that
  runs before the edit of another one has reached the client reads the channel as it was.
\<close>

text \<open>The button \<^verbatim>\<open>claim_ticket\<close>.\<close>

definition claim_button :: "guild_configs \<Rightarrow> member \<Rightarrow> channel \<Rightarrow> channel \<times> ticket_reply" where
  "claim_button cfgs m ch =
     (if c_type ch \<noteq> GuildText then (ch, InvalidChannel)
      else if \<not> canManageTicket cfgs m ch then (ch, NotAllowed)
      else let t = parseTopic (c_topic ch)
           in if truthy (claimed t) then (ch, AlreadyClaimed)
              else (ch\<lparr>c_topic := Some (makeTopic (opened t) (Some (m_id m)))\<rparr>, TicketClaimed))"

text \<open>The command \<^verbatim>\<open>/claim\<close>. Reading the premium state may demote it, so the store is
  returned too.\<close>

definition claim_command ::
  "guild_configs \<Rightarrow> premium_guilds \<Rightarrow> int \<Rightarrow> member \<Rightarrow> channel
     \<Rightarrow> premium_guilds \<times> channel \<times> ticket_reply" where
  "claim_command cfgs guilds now m ch =
     (if c_type ch \<noteq> GuildText \<or> \<not> isTicketChannel cfgs ch then (guilds, ch, NotInTicket)
      else if \<not> canManageTicket cfgs m ch then (guilds, ch, NotAllowed)
      else let topic = parseTopic (c_topic ch)
           in if truthy (claimed topic) \<and> claimed topic \<noteq> Some ''null''
              then (guilds, ch, AlreadyClaimed)
              else
                let opener = (case opened topic of
                                None \<Rightarrow> ''unknown''
                              | Some s \<Rightarrow> if s = [] then ''unknown'' else s);
                    newTopic = ''opened:'' @ opener @ '';claimed:'' @ m_id m;
                    ch1 = ch\<lparr>c_topic := Some newTopic\<rparr>;
                    (guilds', prem) = getPremiumState guilds (c_guildId ch) now;
                    ch2 = (if isPremium prem \<and> autoTagClaims (feats prem)
                           then let base = strip_claimed (if c_name ch1 = [] then ''ticket'' else c_name ch1);
                                    nextName = take 90 (''claimed-'' @ base)
                                in if nextName \<noteq> [] \<and> nextName \<noteq> c_name ch1
                                   then ch1\<lparr>c_name := nextName\<rparr> else ch1
                           else ch1)
                in (guilds', ch2, TicketClaimed))"

text \<open>The command \<^verbatim>\<open>/unclaim\<close>.\<close>

definition unclaim_command ::
  "guild_configs \<Rightarrow> premium_guilds \<Rightarrow> int \<Rightarrow> member \<Rightarrow> channel
     \<Rightarrow> premium_guilds \<times> channel \<times> ticket_reply" where
  "unclaim_command cfgs guilds now m ch =
     (if c_type ch \<noteq> GuildText \<or> \<not> isTicketChannel cfgs ch then (guilds, ch, NotInTicket)
      else if \<not> canManageTicket cfgs m ch then (guilds, ch, NotAllowed)
      else let topic = parseTopic (c_topic ch)
           in (case claimed topic of
                 None \<Rightarrow> (guilds, ch, NotClaimed)
               | Some claimer \<Rightarrow>
                   if claimer = [] then (guilds, ch, NotClaimed)
                   else if claimer \<noteq> m_id m \<and> \<not> isAdmin cfgs m
                   then (guilds, ch, OnlyClaimerOrAdmin claimer)
                   else
                     let opener = (case opened topic of
                                     None \<Rightarrow> ''unknown''
                                   | Some s \<Rightarrow> if s = [] then ''unknown'' else s);
                         newTopic = ''opened:'' @ opener @ '';claimed:null'';
                         ch1 = ch\<lparr>c_topic := Some newTopic\<rparr>;
                         (guilds', prem) = getPremiumState guilds (c_guildId ch) now;
                         ch2 = (if isPremium prem \<and> autoTagClaims (feats prem)
                                then if startsWith (toLowerCase (c_name ch1)) ''claimed-''
                                     then let base = strip_claimed (c_name ch1);
                                              nextName = take 90 (if base = [] then ''ticket'' else base)
                                          in ch1\<lparr>c_name := nextName\<rparr>
                                     else ch1
                                else ch1)
                     in (guilds', ch2, TicketUnclaimed)))"

text \<open>A claim attempt arrives as a press of the button or as the command.\<close>

datatype claim_via = Button | Command

definition claim_attempt ::
  "claim_via \<Rightarrow> guild_configs \<Rightarrow> premium_guilds \<Rightarrow> int \<Rightarrow> member \<Rightarrow> channel
     \<Rightarrow> premium_guilds \<times> channel \<times> ticket_reply" where
  "claim_attempt via cfgs guilds now m ch =
     (case via of
        Button \<Rightarrow> (guilds, claim_button cfgs m ch)
      | Command \<Rightarrow> claim_command cfgs guilds now m ch)"

section \<open>The dashboard route that saves the settings\<close>

text \<open>The fields of the form that \<^verbatim>\<open>POST /server/:guildId/save\<close> reads; \<open>None\<close> for a
  field that was not sent.\<close>

record save_form =
  form_supportCategoryId :: "string option"
  form_mmCategoryId :: "string option"
  form_logChannelId :: "string option"
  form_transcriptChannelId :: "string option"
  form_supportRoles :: "string option"
  form_mmRoles :: "string option"
  form_adminRoles :: "string option"

text \<open>The test \<^verbatim>\<open>/^\d{10,25}$/\<close> of \<^verbatim>\<open>cleanId\<close> and \<^verbatim>\<open>parseIdList\<close>.\<close>

definition is_id_text :: "string \<Rightarrow> bool" where
  "is_id_text s = (10 \<le> length s \<and> length s \<le> 25 \<and> (\<forall>c \<in> set s. is_digit c))"

definition cleanId :: "string option \<Rightarrow> string option" where
  "cleanId v =
     (let s = trim (case v of None \<Rightarrow> [] | Some x \<Rightarrow> x)
      in if s = [] then None else if is_id_text s then Some s else None)"

definition parseIdList :: "string option \<Rightarrow> string list" where
  "parseIdList v =
     (let s = trim (case v of None \<Rightarrow> [] | Some x \<Rightarrow> x)
      in if s = [] then [] else filter is_id_text (map trim (split_on CHR '','' s)))"

text \<open>
  The route calls \<^verbatim>\<open>patchGuildConfig(guildId, patch)\<close>. The program declares no
  function, variable or import of that name, so evaluating the call throws a
  \<^verbatim>\<open>ReferenceError\<close>, whatever the arguments.
\<close>

definition patchGuildConfig :: "guild_configs \<Rightarrow> string \<Rightarrow> config_patch \<Rightarrow> js_error + guild_configs" where
  "patchGuildConfig cfgs guildId patch = Inl ReferenceError"

text \<open>The patch the route builds from the form. Its key \<^verbatim>\<open>transcriptChannelId\<close> is
  no key of a guild configuration and is not part of \<^typ>\<open>config_patch\<close>.\<close>

definition form_patch :: "save_form \<Rightarrow> config_patch" where
  "form_patch body =
     \<lparr> p_supportCategoryId = Some (cleanId (form_supportCategoryId body)),
       p_mmCategoryId = Some (cleanId (form_mmCategoryId body)),
       p_logChannelId = Some (cleanId (form_logChannelId body)),
       p_supportEnabled = None, p_tradeEnabled = None, p_logsEnabled = None,
       p_supportRoles = Some (parseIdList (form_supportRoles body)),
       p_mmRoles = Some (parseIdList (form_mmRoles body)),
       p_adminRoles = Some (parseIdList (form_adminRoles body)),
       p_panelText = None \<rparr>"

text \<open>The handler of the route, for a logged-in request: the configurations afterwards
  and the flash message. The \<^verbatim>\<open>catch\<close> turns every exception into the flash
  \<^verbatim>\<open>Save failed.\<close>\<close>

datatype flash = Saved | SaveFailed

definition dashboard_save :: "guild_configs \<Rightarrow> string \<Rightarrow> save_form \<Rightarrow> guild_configs \<times> flash" where
  "dashboard_save cfgs guildId body =
     (let patch = form_patch body
      in case patchGuildConfig cfgs guildId patch of
           Inr cfgs' \<Rightarrow> (cfgs', Saved)
         | Inl err \<Rightarrow> (cfgs, SaveFailed))"

section \<open>Numbers\<close>

text \<open>
  A JavaScript number is a \<^verbatim>\<open>NaN\<close>, an infinity, or a finite binary64 value, held here
  as the rational it denotes (the sign of a zero is not kept). Every operation computes
  the exact result and rounds it to the nearest binary64 value, ties to the even
  significand, as IEEE 754 has it.
\<close>

datatype jsnum = NaN | PosInf | NegInf | Num rat

definition pow2 :: "int \<Rightarrow> rat" where
  "pow2 e = (if 0 \<le> e then 2 ^ nat e else 1 / 2 ^ nat (- e))"

definition round_half_even :: "rat \<Rightarrow> int" where
  "round_half_even q =
     (let f = \<lfloor>q\<rfloor>; d = q - of_int f
      in if d < 1 / 2 then f else if 1 / 2 < d then f + 1 else if even f then f else f + 1)"

text \<open>The binary exponent of a positive rational: the \<open>e\<close> with \<open>2^e \<le> x < 2^(e+1)\<close>.\<close>

definition ilog2 :: "rat \<Rightarrow> int" where
  "ilog2 x =
     (let (a, b) = quotient_of x; d = bitlen a - bitlen b
      in if pow2 d \<le> x then d else d - 1)"

text \<open>
  Rounding a positive rational: 53 significant bits at the exponent of \<open>x\<close>, the
  exponent no lower than -1022 (below it the values are subnormal); \<open>None\<close> when the
  rounded value would reach \<open>2^1024\<close>, which is the overflow to \<^verbatim>\<open>Infinity\<close>.
\<close>

definition round_double_pos :: "rat \<Rightarrow> rat option" where
  "round_double_pos x =
     (let e = max (ilog2 x) (- 1022);
          u = pow2 (e - 52);
          m = round_half_even (x / u)
      in if 1023 < e \<or> (e = 1023 \<and> m = 9007199254740992) then None else Some (of_int m * u))"

definition to_double :: "rat \<Rightarrow> jsnum" where
  "to_double x =
     (if x = 0 then Num 0
      else if 0 < x then (case round_double_pos x of None \<Rightarrow> PosInf | Some v \<Rightarrow> Num v)
      else (case round_double_pos (- x) of None \<Rightarrow> NegInf | Some v \<Rightarrow> Num (- v)))"

fun jmul :: "jsnum \<Rightarrow> jsnum \<Rightarrow> jsnum" where
  "jmul (Num a) (Num b) = to_double (a * b)"
| "jmul NaN _ = NaN"
| "jmul _ NaN = NaN"
| "jmul PosInf (Num b) = (if 0 < b then PosInf else if b < 0 then NegInf else NaN)"
| "jmul NegInf (Num b) = (if 0 < b then NegInf else if b < 0 then PosInf else NaN)"
| "jmul (Num a) PosInf = (if 0 < a then PosInf else if a < 0 then NegInf else NaN)"
| "jmul (Num a) NegInf = (if 0 < a then NegInf else if a < 0 then PosInf else NaN)"
| "jmul PosInf PosInf = PosInf"
| "jmul NegInf NegInf = PosInf"
| "jmul PosInf NegInf = NegInf"
| "jmul NegInf PosInf = NegInf"

fun jadd :: "jsnum \<Rightarrow> jsnum \<Rightarrow> jsnum" where
  "jadd (Num a) (Num b) = to_double (a + b)"
| "jadd NaN _ = NaN"
| "jadd _ NaN = NaN"
| "jadd PosInf NegInf = NaN"
| "jadd NegInf PosInf = NaN"
| "jadd PosInf _ = PosInf"
| "jadd _ PosInf = PosInf"
| "jadd NegInf _ = NegInf"
| "jadd _ NegInf = NegInf"

text \<open>\<^verbatim>\<open>a > b\<close>; false when either side is \<^verbatim>\<open>NaN\<close>.\<close>

fun jgt :: "jsnum \<Rightarrow> jsnum \<Rightarrow> bool" where
  "jgt (Num a) (Num b) = (b < a)"
| "jgt NaN _ = False"
| "jgt _ NaN = False"
| "jgt PosInf PosInf = False"
| "jgt PosInf _ = True"
| "jgt _ PosInf = False"
| "jgt NegInf _ = False"
| "jgt _ NegInf = True"

text \<open>The value of a digit in a base up to 16; 99 for any other code unit.\<close>

definition digit_val :: "char \<Rightarrow> int" where
  "digit_val c =
     (let n = (of_char c :: int)
      in if 48 \<le> n \<and> n \<le> 57 then n - 48
         else if 97 \<le> n \<and> n \<le> 102 then n - 87
         else if 65 \<le> n \<and> n \<le> 70 then n - 55
         else 99)"

definition digits_in :: "int \<Rightarrow> string \<Rightarrow> bool" where
  "digits_in b s = (s \<noteq> [] \<and> (\<forall>c \<in> set s. digit_val c < b))"

definition digits_val :: "int \<Rightarrow> string \<Rightarrow> int" where
  "digits_val b s = foldl (\<lambda>a c. a * b + digit_val c) 0 s"

definition pow10 :: "int \<Rightarrow> rat" where
  "pow10 e = (if 0 \<le> e then 10 ^ nat e else 1 / 10 ^ nat (- e))"

text \<open>The exponent part of a decimal literal, or nothing: \<open>None\<close> when the text is
  neither.\<close>

definition parse_exponent :: "string \<Rightarrow> int option" where
  "parse_exponent s =
     (case s of
        [] \<Rightarrow> Some 0
      | c # t \<Rightarrow>
          if c = CHR ''e'' \<or> c = CHR ''E''
          then (case t of
                  [] \<Rightarrow> None
                | d # ds \<Rightarrow>
                    if d = CHR ''+'' then (if digits_in 10 ds then Some (digits_val 10 ds) else None)
                    else if d = CHR ''-'' then (if digits_in 10 ds then Some (- digits_val 10 ds) else None)
                    else if digits_in 10 t then Some (digits_val 10 t) else None)
          else None)"

text \<open>An unsigned decimal literal: digits, an optional point and more digits (at least
  one digit on one side of the point), an optional exponent.\<close>

definition parse_decimal :: "string \<Rightarrow> rat option" where
  "parse_decimal s =
     (let ip = takeWhile is_digit s;
          r1 = dropWhile is_digit s;
          fp = (case r1 of [] \<Rightarrow> [] | c # t \<Rightarrow> if c = CHR ''.'' then takeWhile is_digit t else []);
          r2 = (case r1 of [] \<Rightarrow> [] | c # t \<Rightarrow> if c = CHR ''.'' then dropWhile is_digit t else r1)
      in if ip = [] \<and> fp = [] then None
         else (case parse_exponent r2 of
                 None \<Rightarrow> None
               | Some ex \<Rightarrow> Some (of_int (digits_val 10 (ip @ fp)) * pow10 (ex - int (length fp)))))"

text \<open>
  \<^verbatim>\<open>Number(s)\<close> for a string \<open>s\<close>: white space trimmed; the empty text is 0; a
  hexadecimal, octal or binary integer literal; or a signed decimal literal or
  \<^verbatim>\<open>Infinity\<close>; anything else is \<^verbatim>\<open>NaN\<close>.
\<close>

definition js_Number :: "string \<Rightarrow> jsnum" where
  "js_Number s =
     (let t = trim s
      in if t = [] then Num 0
         else if take 2 t = ''0x'' \<or> take 2 t = ''0X''
         then (if digits_in 16 (drop 2 t) then to_double (of_int (digits_val 16 (drop 2 t))) else NaN)
         else if take 2 t = ''0o'' \<or> take 2 t = ''0O''
         then (if digits_in 8 (drop 2 t) then to_double (of_int (digits_val 8 (drop 2 t))) else NaN)
         else if take 2 t = ''0b'' \<or> take 2 t = ''0B''
         then (if digits_in 2 (drop 2 t) then to_double (of_int (digits_val 2 (drop 2 t))) else NaN)
         else let neg = (take 1 t = ''-'');
                  r = (if take 1 t = ''-'' \<or> take 1 t = ''+'' then drop 1 t else t)
              in if r = ''Infinity'' then (if neg then NegInf else PosInf)
                 else (case parse_decimal r of
                         None \<Rightarrow> NaN
                       | Some v \<Rightarrow> to_double (if neg then - v else v)))"

text \<open>The decimal digits of a natural number, as a template literal prints it.\<close>

fun decimal_acc :: "nat \<Rightarrow> string \<Rightarrow> string" where
  "decimal_acc n acc =
     (if n < 10 then char_of (48 + n) # acc
      else decimal_acc (n div 10) (char_of (48 + n mod 10) # acc))"

definition decimal_text :: "nat \<Rightarrow> string" where
  "decimal_text n = decimal_acc n []"

section \<open>Durations of license keys\<close>

definition planToDays :: "string \<Rightarrow> (string \<times> int) option" where
  "planToDays pl =
     (let p = toLowerCase pl
      in if p = ''15d'' \<or> p = ''15days'' \<or> p = ''15'' then Some (''15d'', 15)
         else if p = ''1m'' \<or> p = ''1month'' \<or> p = ''30d'' \<or> p = ''30'' then Some (''1m'', 30)
         else if p = ''3m'' \<or> p = ''3month'' \<or> p = ''90d'' \<or> p = ''90'' then Some (''3m'', 90)
         else (case js_Number p of
                 Num n \<Rightarrow> if 0 < n \<and> n \<le> 3650 then Some (''custom'', \<lfloor>n\<rfloor>) else None
               | _ \<Rightarrow> None))"

text \<open>A word character of \<^verbatim>\<open>\b\<close>: a letter, a digit or the underscore.\<close>

definition is_word_char :: "char \<Rightarrow> bool" where
  "is_word_char c =
     (let n = (of_char c :: nat)
      in (48 \<le> n \<and> n \<le> 57) \<or> (65 \<le> n \<and> n \<le> 90) \<or> (97 \<le> n \<and> n \<le> 122) \<or> n = 95)"

text \<open>\<^verbatim>\<open>\b\<close> after a unit letter: the text ends, or goes on with no word character.\<close>

definition at_boundary :: "string \<Rightarrow> bool" where
  "at_boundary rest = (case rest of [] \<Rightarrow> True | c # _ \<Rightarrow> \<not> is_word_char c)"

text \<open>\<^verbatim>\<open>(mo|y|w|d|h|m|s)\b\<close> at the head of a text, letters in either case: the unit in
  lower case and the text after it.\<close>

definition unit_at :: "string \<Rightarrow> (string \<times> string) option" where
  "unit_at s =
     (if toLowerCase (take 2 s) = ''mo'' \<and> at_boundary (drop 2 s) then Some (''mo'', drop 2 s)
      else if toLowerCase (take 1 s) \<in> {''y'', ''w'', ''d'', ''h'', ''m'', ''s''} \<and> at_boundary (drop 1 s)
      then Some (toLowerCase (take 1 s), drop 1 s)
      else None)"

text \<open>
  \<^verbatim>\<open>/([0-9]+)\s*(mo|y|w|d|h|m|s)\b/\<close> at the head of a text: the digits, the unit, the
  text after the match. Taking fewer digits or less white space than there is never helps
  the match, since what follows them must be a unit letter.
\<close>

definition match_at :: "string \<Rightarrow> (string \<times> string \<times> string) option" where
  "match_at s =
     (let ds = takeWhile is_digit s
      in if ds = [] then None
         else (case unit_at (dropWhile is_space (dropWhile is_digit s)) of
                 None \<Rightarrow> None
               | Some (u, rest) \<Rightarrow> Some (ds, u, rest)))"

lemma unit_at_shorter: "unit_at s = Some (u, rest) \<Longrightarrow> length rest \<le> length s"
  by (auto simp: unit_at_def split: if_splits)

lemma match_at_shorter:
  assumes "match_at s = Some (ds, u, rest)"
  shows "length rest < length s"
proof -
  from assms have d: "takeWhile is_digit s \<noteq> []"
    by (auto simp: match_at_def Let_def split: if_splits)
  from assms have "unit_at (dropWhile is_space (dropWhile is_digit s)) = Some (u, rest)"
    by (auto simp: match_at_def Let_def split: if_splits option.splits)
  then have "length rest \<le> length (dropWhile is_space (dropWhile is_digit s))"
    by (rule unit_at_shorter)
  also have "\<dots> \<le> length (dropWhile is_digit s)"
    by (rule length_dropWhile_le)
  also have "\<dots> < length s"
  proof -
    have "length s = length (takeWhile is_digit s) + length (dropWhile is_digit s)"
      by (metis length_append takeWhile_dropWhile_id)
    with d show ?thesis by simp
  qed
  finally show ?thesis .
qed

text \<open>The loop of \<^verbatim>\<open>re.exec\<close> with the flag \<^verbatim>\<open>g\<close>: the matches from left to right, each
  search starting where the last match ended.\<close>

function scan :: "string \<Rightarrow> (string \<times> string) list" where
  "scan [] = []"
| "scan (c # cs) =
     (case match_at (c # cs) of
        Some (ds, u, rest) \<Rightarrow> (ds, u) # scan rest
      | None \<Rightarrow> scan cs)"
  by pat_completeness auto
termination
  by (relation "measure length") (auto dest: match_at_shorter)

text \<open>\<^verbatim>\<open>n * k1 * k2 * ...\<close>, from the left.\<close>

definition muls :: "jsnum \<Rightarrow> rat list \<Rightarrow> jsnum" where
  "muls n ks = foldl (\<lambda>a k. jmul a (Num k)) n ks"

definition unit_ms :: "jsnum \<Rightarrow> string \<Rightarrow> jsnum" where
  "unit_ms n unit =
     (if unit = ''s'' then muls n [1000]
      else if unit = ''m'' then muls n [60, 1000]
      else if unit = ''h'' then muls n [60, 60, 1000]
      else if unit = ''d'' then muls n [24, 60, 60, 1000]
      else if unit = ''w'' then muls n [7, 24, 60, 60, 1000]
      else if unit = ''mo'' then muls n [30, 24, 60, 60, 1000]
      else if unit = ''y'' then muls n [365, 24, 60, 60, 1000]
      else Num 0)"

text \<open>One round of the loop, on \<^verbatim>\<open>totalMs\<close>.\<close>

definition add_match :: "jsnum \<Rightarrow> string \<times> string \<Rightarrow> jsnum" where
  "add_match totalMs mt =
     (let n = js_Number (fst mt)
      in if (case n of Num _ \<Rightarrow> False | _ \<Rightarrow> True) \<or> \<not> jgt n (Num 0) then totalMs
         else jadd totalMs (unit_ms n (snd mt)))"

record duration =
  d_ms :: rat
  d_label :: string
  d_plan :: string
  d_days :: int

definition maxMs :: rat where
  "maxMs = 10 * 365 * 24 * 60 * 60 * 1000"

definition parseDurationToMs :: "string \<Rightarrow> duration option" where
  "parseDurationToMs input =
     (let raw = trim input
      in if raw = [] then None
         else (case planToDays raw of
                 Some (pl, days) \<Rightarrow>
                   Some \<lparr> d_ms = of_int days * 24 * 60 * 60 * 1000,
                          d_label = decimal_text (nat days) @ ''d'', d_plan = pl, d_days = days \<rparr>
               | None \<Rightarrow>
                   let found = scan raw;
                       used = (found \<noteq> []);
                       totalMs = foldl add_match (Num 0) found
                   in if \<not> used \<or> \<not> jgt totalMs (Num 0) then None
                      else let capped = (if jgt totalMs (Num maxMs) then Num maxMs else totalMs)
                           in (case capped of
                                 Num t \<Rightarrow>
                                   (case to_double (t / (24 * 60 * 60 * 1000)) of
                                      Num q \<Rightarrow>
                                        Some \<lparr> d_ms = t, d_label = toLowerCase raw, d_plan = ''custom'',
                                               d_days = max 1 \<lceil>q\<rceil> \<rparr>
                                    | _ \<Rightarrow> None)
                               | _ \<Rightarrow> None)))"

section \<open>Ratings\<close>

text \<open>
  \<^verbatim>\<open>parseInt(s, 10)\<close>: leading white space, an optional sign, then the longest run of
  decimal digits; \<^verbatim>\<open>NaN\<close> when there is no digit. \<open>None\<close> stands for \<^verbatim>\<open>undefined\<close>,
  which is read as the text \<^verbatim>\<open>undefined\<close> and has no digit either.
\<close>

definition parseInt10 :: "string option \<Rightarrow> jsnum" where
  "parseInt10 v =
     (case v of
        None \<Rightarrow> NaN
      | Some s \<Rightarrow>
          let t = dropWhile is_space s;
              neg = (take 1 t = ''-'');
              r = (if take 1 t = ''-'' \<or> take 1 t = ''+'' then drop 1 t else t);
              ds = takeWhile is_digit r
          in if ds = [] then NaN
             else to_double (of_int (if neg then - digits_val 10 ds else digits_val 10 ds)))"

text \<open>\<^verbatim>\<open>a / b\<close> for a finite positive divisor.\<close>

fun jdiv_pos :: "jsnum \<Rightarrow> rat \<Rightarrow> jsnum" where
  "jdiv_pos (Num a) b = to_double (a / b)"
| "jdiv_pos x b = x"

text \<open>
  \<^verbatim>\<open>+(x.toFixed(2))\<close>. For a finite \<open>x\<close> below \<open>10^21\<close> in size, \<^verbatim>\<open>toFixed\<close> prints
  \<open>n / 100\<close> for the integer \<open>n\<close> nearest to \<open>100 * |x|\<close>, the larger one of two, with the
  sign of \<open>x\<close>; the unary plus reads the text back as a number. Any other \<open>x\<close> is printed
  and read back as it is.
\<close>

definition toFixed2 :: "jsnum \<Rightarrow> jsnum" where
  "toFixed2 x =
     (case x of
        Num q \<Rightarrow>
          if 10 ^ 21 \<le> \<bar>q\<bar> then Num q
          else let n = \<lfloor>\<bar>q\<bar> * 100 + 1 / 2\<rfloor>
               in to_double (if q < 0 then - (of_int n / 100) else of_int n / 100)
      | _ \<Rightarrow> x)"

text \<open>One bucket of \<^verbatim>\<open>REVIEWS\<close>: the scores, their rounded mean, their number.\<close>

record bucket =
  b_reviews :: "jsnum list"
  b_avg :: jsnum
  b_count :: nat

text \<open>The state of the ratings: \<^verbatim>\<open>REVIEWS.trade\<close>, \<^verbatim>\<open>REVIEWS.service\<close> and the keys of
  \<^verbatim>\<open>RATED\<close> that are set.\<close>

record ratings =
  rv_trade :: "string \<rightharpoonup> bucket"
  rv_service :: "string \<rightharpoonup> bucket"
  rated :: "string set"

text \<open>The body that \<^verbatim>\<open>addReviewForStaff\<close> and \<^verbatim>\<open>addReviewForService\<close> share, on the
  bucket found under the key (a fresh one when there is none).\<close>

definition push_review :: "bucket option \<Rightarrow> jsnum \<Rightarrow> bucket" where
  "push_review old score =
     (let b = (case old of None \<Rightarrow> \<lparr> b_reviews = [], b_avg = Num 0, b_count = 0 \<rparr> | Some b \<Rightarrow> b);
          rs = b_reviews b @ [score];
          cnt = length rs;
          total = foldl jadd (Num 0) rs
      in \<lparr> b_reviews = rs, b_avg = toFixed2 (jdiv_pos total (of_nat cnt)), b_count = cnt \<rparr>)"

definition addReviewForStaff :: "ratings \<Rightarrow> string \<Rightarrow> jsnum \<Rightarrow> ratings" where
  "addReviewForStaff st staffId score =
     st\<lparr>rv_trade := (rv_trade st)(staffId \<mapsto> push_review (rv_trade st staffId) score)\<rparr>"

definition addReviewForService :: "ratings \<Rightarrow> jsnum \<Rightarrow> ratings" where
  "addReviewForService st score =
     st\<lparr>rv_service := (rv_service st)(''global'' \<mapsto> push_review (rv_service st ''global'') score)\<rparr>"

datatype rate_reply =
  NotARating | InvalidRating | AlreadyRated | Thanks jsnum | UnknownRatingType

text \<open>\<^verbatim>\<open>parts[i]\<close>: \<open>None\<close> for \<^verbatim>\<open>undefined\<close>.\<close>

definition part :: "string list \<Rightarrow> nat \<Rightarrow> string option" where
  "part parts i = (if i < length parts then Some (parts ! i) else None)"

text \<open>A number is falsy when it is \<^verbatim>\<open>NaN\<close> or zero.\<close>

definition falsy_num :: "jsnum \<Rightarrow> bool" where
  "falsy_num n = (n = NaN \<or> n = Num 0)"

text \<open>The block of the handler of interactions that records a rating, for a button whose
  id starts with \<^verbatim>\<open>rate:\<close> and the user \<open>userId\<close> who pressed it: the statements of the
  block as they are written. The handler does not reach them, see \<open>rate_button\<close> below.\<close>

definition rate_block :: "ratings \<Rightarrow> string \<Rightarrow> string \<Rightarrow> ratings \<times> rate_reply" where
  "rate_block st userId customId =
     (if \<not> startsWith customId ''rate:'' then (st, NotARating)
      else let parts = split_on CHR '':'' customId; kind = part parts 1
           in if kind = Some ''trade'' \<or> kind = Some ''mm''
              then let ticketName = part parts 2; staffId = part parts 3;
                       score = parseInt10 (part parts 4)
                   in (case (ticketName, staffId) of
                         (Some tn, Some sid) \<Rightarrow>
                           if tn = [] \<or> sid = [] \<or> falsy_num score then (st, InvalidRating)
                           else let key = tn @ ''_'' @ userId @ ''_mm''
                                in if key \<in> rated st then (st, AlreadyRated)
                                   else ((addReviewForStaff st sid score)\<lparr>rated := insert key (rated st)\<rparr>,
                                         Thanks score)
                       | _ \<Rightarrow> (st, InvalidRating))
              else if kind = Some ''service''
              then let ticketName = part parts 2; score = parseInt10 (part parts 3)
                   in (case ticketName of
                         Some tn \<Rightarrow>
                           if tn = [] \<or> falsy_num score then (st, InvalidRating)
                           else let key = tn @ ''_'' @ userId @ ''_service''
                                in if key \<in> rated st then (st, AlreadyRated)
                                   else ((addReviewForService st score)\<lparr>rated := insert key (rated st)\<rparr>,
                                         Thanks score)
                       | None \<Rightarrow> (st, InvalidRating))
              else (st, UnknownRatingType))"

text \<open>
  The handler of interactions is one function, a sequence of branches that each test the
  kind and the id of the interaction. Between the branch of the window that asks for the
  reason of a close and the block of the ratings, outside every branch, it has the
  statements

  \<^verbatim>\<open>const { opened, claimed } = parseTopic(channel.topic);\<close>

  \<^verbatim>\<open>await closeTicket(channel, member, reason).catch(() => {});\<close>

  \<^verbatim>\<open>return;\<close>

  The name \<^verbatim>\<open>channel\<close> is declared in no scope that holds the first of them (the branches
  declare it for themselves): reading it throws a \<^verbatim>\<open>ReferenceError\<close>.
\<close>

definition handler_channel :: "js_error + channel" where
  "handler_channel = Inl ReferenceError"

text \<open>
  A press of a button whose id starts with \<^verbatim>\<open>rate:\<close>, by the user \<open>userId\<close>, as the
  handler runs it. None of the branches that come first matches such an id, so the run
  comes to the statements above: the first one throws, and had it not, the \<^verbatim>\<open>return\<close>
  would end the handler with no reply (\<open>None\<close>). The block of the ratings stands after
  them and is never run.
\<close>

definition rate_button ::
  "ratings \<Rightarrow> string \<Rightarrow> string \<Rightarrow> ratings \<times> (js_error + rate_reply option)" where
  "rate_button st userId customId =
     (case handler_channel of
        Inl err \<Rightarrow> (st, Inl err)
      | Inr ch \<Rightarrow> (st, Inr None))"

section \<open>Example values\<close>

text \<open>A guild with a support category and one support role, two members of its staff, a
  member with no role, and a ticket channel of that category.\<close>

definition ex_guild :: string where
  "ex_guild = ''900000000000000001''"

definition ex_owner :: string where
  "ex_owner = ''111111111111111111''"

definition ex_role :: string where
  "ex_role = ''444444444444444444''"

definition ex_category :: string where
  "ex_category = ''555555555555555555''"

definition ex_cfgs :: guild_configs where
  "ex_cfgs = [ex_guild \<mapsto>
     empty_config\<lparr> s_supportCategoryId := Some ex_category, s_supportEnabled := Some True,
                   s_supportRoles := Some [ex_role] \<rparr>]"

definition ex_staff :: member where
  "ex_staff = \<lparr> m_id = ''222222222222222222'', m_guildId = ex_guild, m_roles = [ex_role] \<rparr>"

definition ex_staff2 :: member where
  "ex_staff2 = \<lparr> m_id = ''333333333333333333'', m_guildId = ex_guild, m_roles = [ex_role] \<rparr>"

definition ex_outsider :: member where
  "ex_outsider = \<lparr> m_id = ''666666666666666666'', m_guildId = ex_guild, m_roles = [] \<rparr>"

definition ex_channel :: "string \<Rightarrow> string \<Rightarrow> channel" where
  "ex_channel nm topic =
     \<lparr> c_type = GuildText, c_guildId = ex_guild, c_parentId = Some ex_category,
       c_topic = Some topic, c_name = nm \<rparr>"

text \<open>A key of one day that was not redeemed, and the message by which the owner of the
  guild redeems it.\<close>

definition ex_key :: license_key where
  "ex_key =
     \<lparr> k_plan = Some ''custom'', k_durationMs = Some 86400000, k_durationDays = Some 1,
       k_durationLabel = Some ''1d'', k_createdAt = Some (ISO 1699990000000),
       k_createdBy = Some ''777777777777777777'', k_used = False, k_usedByGuildId = None,
       k_usedAt = None \<rparr>"

definition ex_keys :: premium_keys where
  "ex_keys = [''DS-ABCD-EFGH-JKLM'' \<mapsto> ex_key]"

definition ex_msg :: message where
  "ex_msg =
     \<lparr> msg_bot = False, msg_guild = Some (ex_guild, ex_owner), msg_author = ex_owner,
       msg_content = ''?premium-redeem DS-ABCD-EFGH-JKLM'' \<rparr>"

text \<open>A premium entry that expires at the instant \<open>t\<close>.\<close>

definition ex_premium :: "int \<Rightarrow> premium_raw" where
  "ex_premium t =
     empty_premium\<lparr> r_isPremium := True, r_plan := Some ''custom'',
                    r_activatedAt := Some (ISO 1690000000000), r_expiresAt := Some (ISO t) \<rparr>"

text \<open>The ticket of the example, not claimed and claimed by the first member of the
  staff, under its first name and under the name that the auto-tag gives it.\<close>

definition ex_free :: channel where
  "ex_free = ex_channel ''ticket-bob'' ''opened:888888888888888888;claimed:null''"

definition ex_taken :: channel where
  "ex_taken = ex_channel ''ticket-bob'' ''opened:888888888888888888;claimed:222222222222222222''"

definition ex_tagged :: channel where
  "ex_tagged = ex_channel ''claimed-ticket-bob'' ''opened:888888888888888888;claimed:222222222222222222''"

text \<open>Premium entries of the guild that run until the instant 1800000000000, with the
  auto-tag of claims switched on.\<close>

definition ex_autotag :: premium_guilds where
  "ex_autotag = [ex_guild \<mapsto>
     (ex_premium 1800000000000)\<lparr> r_features := empty_features\<lparr> f_autoTagClaims := True \<rparr> \<rparr>]"

text \<open>A form for the dashboard that sets the support category.\<close>

definition ex_form :: save_form where
  "ex_form =
     \<lparr> form_supportCategoryId = Some ''555555555555555555'', form_mmCategoryId = None,
       form_logChannelId = None, form_transcriptChannelId = None, form_supportRoles = None,
       form_mmRoles = None, form_adminRoles = None \<rparr>"

text \<open>Ratings in which the first member of the staff has the scores 5 and 4 and nobody
  has rated the ticket yet, and the id of the button that gives that member 4 stars.\<close>

definition ex_ratings :: ratings where
  "ex_ratings =
     \<lparr> rv_trade = [''222222222222222222'' \<mapsto>
                      \<lparr> b_reviews = [Num 5, Num 4], b_avg = Num (9 / 2), b_count = 2 \<rparr>],
       rv_service = Map.empty, rated = {} \<rparr>"

definition ex_button :: string where
  "ex_button = ''rate:trade:ticket-bob:222222222222222222:4''"

section \<open>Properties of the topic encoding\<close>

lemma split_on_notin: "c \<notin> set xs \<Longrightarrow> split_on c xs = [xs]"
  by (induction xs) auto

lemma split_on_append: "c \<notin> set xs \<Longrightarrow> split_on c (xs @ c # ys) = xs # split_on c ys"
  by (induction xs) auto

lemma parseTopic_makeTopic_some:
  assumes "opener \<noteq> []" "CHR '':'' \<notin> set opener" "CHR '';'' \<notin> set opener"
    and "claimer \<noteq> []" "CHR '':'' \<notin> set claimer" "CHR '';'' \<notin> set claimer"
  shows "parseTopic (Some (makeTopic (Some opener) (Some claimer)))
         = \<lparr> opened = Some opener, claimed = (if claimer = ''null'' then None else Some claimer) \<rparr>"
proof -
  have s1: "split_on CHR '';'' (''opened:'' @ opener @ CHR '';'' # (''claimed:'' @ claimer))
            = [''opened:'' @ opener, ''claimed:'' @ claimer]"
    using assms split_on_append [of "CHR '';''" "''opened:'' @ opener" "''claimed:'' @ claimer"]
      split_on_notin [of "CHR '';''" "''claimed:'' @ claimer"] by simp
  have s2: "split_on CHR '':'' (''opened'' @ CHR '':'' # opener) = [''opened'', opener]"
    using assms split_on_append [of "CHR '':''" "''opened''" opener]
      split_on_notin [of "CHR '':''" opener] by simp
  have s3: "split_on CHR '':'' (''claimed'' @ CHR '':'' # claimer) = [''claimed'', claimer]"
    using assms split_on_append [of "CHR '':''" "''claimed''" claimer]
      split_on_notin [of "CHR '':''" claimer] by simp
  show ?thesis
    using s1 s2 s3 assms
    by (simp add: parseTopic_def makeTopic_def parseTopic_part_def truthy_def)
qed

lemma makeTopic_null: "makeTopic openerId None = makeTopic openerId (Some ''null'')"
  by (simp add: makeTopic_def)

text \<open>
  Claim C10. The topic encoding round-trips. For every opener id that is not empty and
  holds neither a colon nor a semicolon (every snowflake is such a text),
  \<^verbatim>\<open>parseTopic(makeTopic(opener, null))\<close> is \<^verbatim>\<open>{opened: opener, claimed: null}\<close>; and
  for every claimer id of the same kind that is not the text \<^verbatim>\<open>null\<close>,
  \<^verbatim>\<open>parseTopic(makeTopic(opener, claimer))\<close> is \<^verbatim>\<open>{opened: opener, claimed: claimer}\<close>.
\<close>

theorem topic_roundtrip:
  assumes "opener \<noteq> []" and "CHR '':'' \<notin> set opener" and "CHR '';'' \<notin> set opener"
  shows "parseTopic (Some (makeTopic (Some opener) None))
           = \<lparr> opened = Some opener, claimed = None \<rparr>
         \<and> (claimer \<noteq> [] \<and> CHR '':'' \<notin> set claimer \<and> CHR '';'' \<notin> set claimer
              \<and> claimer \<noteq> ''null''
            \<longrightarrow> parseTopic (Some (makeTopic (Some opener) (Some claimer)))
                  = \<lparr> opened = Some opener, claimed = Some claimer \<rparr>)"
proof
  show "parseTopic (Some (makeTopic (Some opener) None))
          = \<lparr> opened = Some opener, claimed = None \<rparr>"
    using parseTopic_makeTopic_some [OF assms, of "''null''"] by (simp add: makeTopic_null)
  show "claimer \<noteq> [] \<and> CHR '':'' \<notin> set claimer \<and> CHR '';'' \<notin> set claimer
          \<and> claimer \<noteq> ''null''
        \<longrightarrow> parseTopic (Some (makeTopic (Some opener) (Some claimer)))
              = \<lparr> opened = Some opener, claimed = Some claimer \<rparr>"
    using parseTopic_makeTopic_some [OF assms, of claimer] by simp
qed

theorem topic_roundtrip_witness:
  "parseTopic (Some (makeTopic (Some ''123456789012345678'') None))
     = \<lparr> opened = Some ''123456789012345678'', claimed = None \<rparr>
   \<and> parseTopic (Some (makeTopic (Some ''123456789012345678'') (Some ''876543210987654321'')))
     = \<lparr> opened = Some ''123456789012345678'', claimed = Some ''876543210987654321'' \<rparr>"
  using topic_roundtrip [of "''123456789012345678''" "''876543210987654321''"] by simp

section \<open>Properties of claiming and releasing\<close>

lemma split_on_nonempty: "split_on c xs \<noteq> []"
  by (induction xs) (auto split: list.splits)

lemma split_on_pieces: "p \<in> set (split_on c xs) \<Longrightarrow> c \<notin> set p \<and> set p \<subseteq> set xs"
proof (induction xs arbitrary: p)
  case Nil
  then show ?case by simp
next
  case (Cons x xs)
  show ?case
  proof (cases "x = c")
    case True
    with Cons show ?thesis by auto
  next
    case False
    obtain q qs where s: "split_on c xs = q # qs"
      using split_on_nonempty [of c xs] by (cases "split_on c xs") auto
    with Cons.prems False have "p = x # q \<or> p \<in> set qs" by simp
    then show ?thesis
    proof
      assume "p = x # q"
      moreover have "c \<notin> set q \<and> set q \<subseteq> set xs" using Cons.IH [of q] s by simp
      ultimately show ?thesis using False by auto
    next
      assume "p \<in> set qs"
      then have "c \<notin> set p \<and> set p \<subseteq> set xs" using Cons.IH [of p] s by simp
      then show ?thesis by auto
    qed
  qed
qed


lemma second_in: "(case kv of [] \<Rightarrow> None | [a] \<Rightarrow> None | a # b # _ \<Rightarrow> Some b) = Some v \<Longrightarrow> v \<in> set kv"
  by (cases kv) (auto split: list.splits)

lemma parseTopic_part_fields:
  "opened (parseTopic_part d kv)
     = (let v = (case kv of _ # b # _ \<Rightarrow> Some b | _ \<Rightarrow> None)
        in if (case kv of [] \<Rightarrow> None | a # _ \<Rightarrow> Some a) = Some ''opened''
           then (if truthy v then v else None) else opened d)"
  "claimed (parseTopic_part d kv)
     = (let v = (case kv of _ # b # _ \<Rightarrow> Some b | _ \<Rightarrow> None)
        in if (case kv of [] \<Rightarrow> None | a # _ \<Rightarrow> Some a) = Some ''claimed''
           then (if truthy v \<and> v \<noteq> Some ''null'' then v else None) else claimed d)"
  by (simp_all add: parseTopic_part_def Let_def)

lemma parseTopic_part_good:
  assumes o: "\<forall>s. opened d = Some s \<longrightarrow> s \<noteq> [] \<and> CHR '':'' \<notin> set s \<and> CHR '';'' \<notin> set s"
    and c: "\<forall>s. claimed d = Some s \<longrightarrow> s \<noteq> [] \<and> s \<noteq> ''null''"
    and kv: "\<forall>x \<in> set kv. CHR '':'' \<notin> set x \<and> CHR '';'' \<notin> set x"
  shows "(\<forall>s. opened (parseTopic_part d kv) = Some s
              \<longrightarrow> s \<noteq> [] \<and> CHR '':'' \<notin> set s \<and> CHR '';'' \<notin> set s)
       \<and> (\<forall>s. claimed (parseTopic_part d kv) = Some s \<longrightarrow> s \<noteq> [] \<and> s \<noteq> ''null'')"
proof (rule conjI; rule allI; rule impI)
  fix s
  assume a: "opened (parseTopic_part d kv) = Some s"
  show "s \<noteq> [] \<and> CHR '':'' \<notin> set s \<and> CHR '';'' \<notin> set s"
  proof (cases "(case kv of [] \<Rightarrow> None | a # _ \<Rightarrow> Some a) = Some ''opened''")
    case True
    with a have v: "(case kv of _ # b # _ \<Rightarrow> Some b | _ \<Rightarrow> None) = Some s" and ne: "s \<noteq> []"
      by (auto simp: parseTopic_part_fields Let_def truthy_def split: if_splits)
    from v have "s \<in> set kv" by (rule second_in)
    with kv ne show ?thesis by blast
  next
    case False
    with a have "opened d = Some s" by (simp add: parseTopic_part_fields Let_def)
    with o show ?thesis by blast
  qed
next
  fix s
  assume a: "claimed (parseTopic_part d kv) = Some s"
  show "s \<noteq> [] \<and> s \<noteq> ''null''"
  proof (cases "(case kv of [] \<Rightarrow> None | a # _ \<Rightarrow> Some a) = Some ''claimed''")
    case True
    with a show ?thesis
      by (auto simp: parseTopic_part_fields Let_def truthy_def split: if_splits)
  next
    case False
    with a have "claimed d = Some s" by (simp add: parseTopic_part_fields Let_def)
    with c show ?thesis by blast
  qed
qed


lemma foldl_parseTopic_good:
  assumes "\<forall>s. opened d = Some s \<longrightarrow> s \<noteq> [] \<and> CHR '':'' \<notin> set s \<and> CHR '';'' \<notin> set s"
    and "\<forall>s. claimed d = Some s \<longrightarrow> s \<noteq> [] \<and> s \<noteq> ''null''"
    and "\<forall>kv \<in> set kvs. \<forall>x \<in> set kv. CHR '':'' \<notin> set x \<and> CHR '';'' \<notin> set x"
  shows "(\<forall>s. opened (foldl parseTopic_part d kvs) = Some s
              \<longrightarrow> s \<noteq> [] \<and> CHR '':'' \<notin> set s \<and> CHR '';'' \<notin> set s)
       \<and> (\<forall>s. claimed (foldl parseTopic_part d kvs) = Some s \<longrightarrow> s \<noteq> [] \<and> s \<noteq> ''null'')"
  using assms
proof (induction kvs arbitrary: d)
  case Nil
  then show ?case by simp
next
  case (Cons kv kvs)
  have kv: "\<forall>x \<in> set kv. CHR '':'' \<notin> set x \<and> CHR '';'' \<notin> set x"
    using Cons.prems(3) by simp
  have rest: "\<forall>kv \<in> set kvs. \<forall>x \<in> set kv. CHR '':'' \<notin> set x \<and> CHR '';'' \<notin> set x"
    using Cons.prems(3) by simp
  note g = parseTopic_part_good [OF Cons.prems(1) Cons.prems(2) kv]
  have "(\<forall>s. opened (foldl parseTopic_part (parseTopic_part d kv) kvs) = Some s
              \<longrightarrow> s \<noteq> [] \<and> CHR '':'' \<notin> set s \<and> CHR '';'' \<notin> set s)
       \<and> (\<forall>s. claimed (foldl parseTopic_part (parseTopic_part d kv) kvs) = Some s
              \<longrightarrow> s \<noteq> [] \<and> s \<noteq> ''null'')"
    by (rule Cons.IH [OF conjunct1 [OF g] conjunct2 [OF g] rest])
  then show ?case by simp
qed

lemma parseTopic_good:
  "(\<forall>s. opened (parseTopic t) = Some s
       \<longrightarrow> s \<noteq> [] \<and> CHR '':'' \<notin> set s \<and> CHR '';'' \<notin> set s)
   \<and> (\<forall>s. claimed (parseTopic t) = Some s \<longrightarrow> s \<noteq> [] \<and> s \<noteq> ''null'')"
proof (cases t)
  case None
  then show ?thesis by (simp add: parseTopic_def)
next
  case (Some tx)
  show ?thesis
  proof (cases "tx = []")
    case True
    with Some show ?thesis by (simp add: parseTopic_def)
  next
    case False
    have pieces: "\<forall>kv \<in> set (map (split_on CHR '':'') (split_on CHR '';'' tx)).
                   \<forall>x \<in> set kv. CHR '':'' \<notin> set x \<and> CHR '';'' \<notin> set x"
    proof (intro ballI)
      fix kv x
      assume kv: "kv \<in> set (map (split_on CHR '':'') (split_on CHR '';'' tx))" and x: "x \<in> set kv"
      then obtain p where p: "p \<in> set (split_on CHR '';'' tx)" and kvp: "kv = split_on CHR '':'' p"
        by auto
      from p have np: "CHR '';'' \<notin> set p" using split_on_pieces [of p "CHR '';''" tx] by simp
      from x kvp have "CHR '':'' \<notin> set x \<and> set x \<subseteq> set p"
        using split_on_pieces [of x "CHR '':''" p] by simp
      with np show "CHR '':'' \<notin> set x \<and> CHR '';'' \<notin> set x" by auto
    qed
    have e: "\<forall>s. opened \<lparr>opened = None, claimed = None\<rparr> = Some s
                \<longrightarrow> s \<noteq> [] \<and> CHR '':'' \<notin> set s \<and> CHR '';'' \<notin> set s"
      and e2: "\<forall>s. claimed \<lparr>opened = None, claimed = None\<rparr> = Some s \<longrightarrow> s \<noteq> [] \<and> s \<noteq> ''null''"
      by simp_all
    note g = foldl_parseTopic_good [OF e e2 pieces]
    from Some False have "parseTopic t = foldl parseTopic_part \<lparr>opened = None, claimed = None\<rparr>
                    (map (split_on CHR '':'') (split_on CHR '';'' tx))"
      by (simp add: parseTopic_def)
    with g show ?thesis by simp
  qed
qed

lemma command_topic:
  assumes "claimer \<noteq> []" "CHR '':'' \<notin> set claimer" "CHR '';'' \<notin> set claimer"
  shows "parseTopic (Some (''opened:''
            @ (case opened (parseTopic t) of None \<Rightarrow> ''unknown'' | Some s \<Rightarrow> if s = [] then ''unknown'' else s)
            @ '';claimed:'' @ claimer))
         = \<lparr> opened = Some (case opened (parseTopic t) of None \<Rightarrow> ''unknown'' | Some s \<Rightarrow> s),
             claimed = (if claimer = ''null'' then None else Some claimer) \<rparr>"
proof (cases "opened (parseTopic t)")
  case None
  have "parseTopic (Some (makeTopic (Some ''unknown'') (Some claimer)))
          = \<lparr> opened = Some ''unknown'', claimed = (if claimer = ''null'' then None else Some claimer) \<rparr>"
    using assms by (intro parseTopic_makeTopic_some) simp_all
  with None show ?thesis by (simp add: makeTopic_def)
next
  case (Some s)
  then have g: "s \<noteq> [] \<and> CHR '':'' \<notin> set s \<and> CHR '';'' \<notin> set s"
    using parseTopic_good [of t] by simp
  have "parseTopic (Some (makeTopic (Some s) (Some claimer)))
          = \<lparr> opened = Some s, claimed = (if claimer = ''null'' then None else Some claimer) \<rparr>"
    using assms g by (intro parseTopic_makeTopic_some) simp_all
  with Some g show ?thesis by (simp add: makeTopic_def)
qed

lemma claimed_not_null: "claimed (parseTopic t) \<noteq> Some ''null''"
  using parseTopic_good [of t] by auto

lemma canManageTicket_edit [simp]:
  "canManageTicket cfgs m (ch\<lparr>c_topic := t\<rparr>) = canManageTicket cfgs m ch"
  "canManageTicket cfgs m (ch\<lparr>c_name := n\<rparr>) = canManageTicket cfgs m ch"
  by (simp_all add: canManageTicket_def)

lemma canManageTicket_text: "canManageTicket cfgs m ch \<Longrightarrow> c_type ch = GuildText"
  by (auto simp: canManageTicket_def split: if_splits)

lemma claim_button_taken:
  assumes "truthy (claimed (parseTopic (c_topic ch)))"
  shows "claim_button cfgs m ch
         = (ch, if c_type ch \<noteq> GuildText then InvalidChannel
                else if \<not> canManageTicket cfgs m ch then NotAllowed else AlreadyClaimed)"
  using assms by (simp add: claim_button_def Let_def)

lemma claim_command_taken:
  assumes "truthy (claimed (parseTopic (c_topic ch)))"
  shows "claim_command cfgs guilds now m ch
         = (guilds, ch, if c_type ch \<noteq> GuildText \<or> \<not> isTicketChannel cfgs ch then NotInTicket
                        else if \<not> canManageTicket cfgs m ch then NotAllowed else AlreadyClaimed)"
  using assms claimed_not_null [of "c_topic ch"] by (simp add: claim_command_def Let_def)

text \<open>
  Claim C4, as amended. For a channel whose topic records a claimer, every further claim
  attempt, by the button or by \<^verbatim>\<open>/claim\<close>, by any actor, is refused and leaves the channel,
  the \<^verbatim>\<open>claimed\<close> field of its topic with it, and the premium states as they were. The
  reply is that of the first check of the handler that fails. By the button: the
  invalid-channel reply when the channel is not a text channel of a guild, else the
  not-allowed reply when the actor does not pass \<^verbatim>\<open>canManageTicket\<close>, else the
  already-claimed reply. By \<^verbatim>\<open>/claim\<close>: the reply that the command belongs in a ticket
  channel when the channel is not a text channel of a guild or not a ticket channel, else
  the not-allowed reply when the actor does not pass \<^verbatim>\<open>canManageTicket\<close>, else the
  already-claimed reply.
\<close>

theorem claim_on_claimed_ticket:
  assumes "truthy (claimed (parseTopic (c_topic ch)))"
  shows "claim_attempt via cfgs guilds now m ch
         = (guilds, ch,
            case via of
              Button \<Rightarrow> (if c_type ch \<noteq> GuildText then InvalidChannel
                          else if \<not> canManageTicket cfgs m ch then NotAllowed else AlreadyClaimed)
            | Command \<Rightarrow> (if c_type ch \<noteq> GuildText \<or> \<not> isTicketChannel cfgs ch then NotInTicket
                           else if \<not> canManageTicket cfgs m ch then NotAllowed else AlreadyClaimed))"
  using claim_button_taken [OF assms] claim_command_taken [OF assms]
  by (cases via) (simp_all add: claim_attempt_def)

theorem claim_on_claimed_ticket_witness:
  "truthy (claimed (parseTopic (c_topic ex_taken)))
   \<and> claim_attempt Button ex_cfgs Map.empty 1700000000000 ex_staff2 ex_taken
       = (Map.empty, ex_taken, AlreadyClaimed)
   \<and> claim_attempt Command ex_cfgs Map.empty 1700000000000 ex_staff2 ex_taken
       = (Map.empty, ex_taken, AlreadyClaimed)
   \<and> claim_attempt Command ex_cfgs Map.empty 1700000000000 ex_outsider ex_taken
       = (Map.empty, ex_taken, NotAllowed)"
proof -
  have taken: "truthy (claimed (parseTopic (c_topic ex_taken)))"
    by code_simp
  have g: "c_type ex_taken = GuildText"
    and t: "isTicketChannel ex_cfgs ex_taken"
    and c: "canManageTicket ex_cfgs ex_staff2 ex_taken"
    and n: "\<not> canManageTicket ex_cfgs ex_outsider ex_taken"
    by code_simp+
  note b = claim_on_claimed_ticket [where ch = ex_taken and via = Button and cfgs = ex_cfgs
      and guilds = Map.empty and now = 1700000000000 and m = ex_staff2, OF taken]
  note d = claim_on_claimed_ticket [where ch = ex_taken and via = Command and cfgs = ex_cfgs
      and guilds = Map.empty and now = 1700000000000 and m = ex_staff2, OF taken]
  note e = claim_on_claimed_ticket [where ch = ex_taken and via = Command and cfgs = ex_cfgs
      and guilds = Map.empty and now = 1700000000000 and m = ex_outsider, OF taken]
  from taken b d e g t c n show ?thesis by simp
qed

text \<open>
  Claim C4 as it is stated fails in two places. On a claimed ticket a member with no staff
  role is refused by the permission check, which comes first, by the button and by the
  command alike: the reply is not the already-claimed one. And of two claim attempts on a
  ticket that is not claimed, by two members of the staff, both succeed when the second
  handler runs before the first one's edit of the topic has reached the client: each
  reads a topic with no claimer and answers that the ticket is claimed.
\<close>

theorem claim_refused_as_not_allowed_and_granted_twice:
  "truthy (claimed (parseTopic (c_topic ex_taken)))
   \<and> snd (snd (claim_attempt Button ex_cfgs Map.empty 1700000000000 ex_outsider ex_taken)) = NotAllowed
   \<and> snd (snd (claim_attempt Command ex_cfgs Map.empty 1700000000000 ex_outsider ex_taken)) = NotAllowed
   \<and> \<not> truthy (claimed (parseTopic (c_topic ex_free)))
   \<and> m_id ex_staff \<noteq> m_id ex_staff2
   \<and> snd (snd (claim_attempt Button ex_cfgs Map.empty 1700000000000 ex_staff ex_free)) = TicketClaimed
   \<and> snd (snd (claim_attempt Button ex_cfgs Map.empty 1700000000000 ex_staff2 ex_free)) = TicketClaimed
   \<and> snd (snd (claim_attempt Command ex_cfgs Map.empty 1700000000000 ex_staff ex_free)) = TicketClaimed
   \<and> snd (snd (claim_attempt Command ex_cfgs Map.empty 1700000000000 ex_staff2 ex_free)) = TicketClaimed"
  by code_simp

lemma unclaim_refused_guard:
  assumes "\<not> (c_type ch = GuildText \<and> isTicketChannel cfgs ch \<and> canManageTicket cfgs m ch)"
  shows "unclaim_command cfgs guilds now m ch
         = (guilds, ch, if c_type ch \<noteq> GuildText \<or> \<not> isTicketChannel cfgs ch then NotInTicket
                        else NotAllowed)"
  using assms by (auto simp: unclaim_command_def)

lemma unclaim_not_claimed:
  assumes "isTicketChannel cfgs ch" and "canManageTicket cfgs m ch"
    and "claimed (parseTopic (c_topic ch)) = None"
  shows "unclaim_command cfgs guilds now m ch = (guilds, ch, NotClaimed)"
  using assms canManageTicket_text [OF assms(2)] by (simp add: unclaim_command_def Let_def)

lemma unclaim_other:
  assumes "isTicketChannel cfgs ch" and "canManageTicket cfgs m ch"
    and "claimed (parseTopic (c_topic ch)) = Some c" and "c \<noteq> m_id m" and "\<not> isAdmin cfgs m"
  shows "unclaim_command cfgs guilds now m ch = (guilds, ch, OnlyClaimerOrAdmin c)"
proof -
  have "c \<noteq> []" using parseTopic_good [of "c_topic ch"] assms(3) by simp
  then show ?thesis
    using assms canManageTicket_text [OF assms(2)] by (simp add: unclaim_command_def Let_def)
qed

lemma unclaim_done:
  assumes "isTicketChannel cfgs ch" and "canManageTicket cfgs m ch"
    and "claimed (parseTopic (c_topic ch)) = Some c" and "c = m_id m \<or> isAdmin cfgs m"
  shows "unclaim_command cfgs guilds now m ch
         = (fst (getPremiumState guilds (c_guildId ch) now),
            ch\<lparr> c_topic := Some (''opened:''
                     @ (case opened (parseTopic (c_topic ch)) of
                          None \<Rightarrow> ''unknown'' | Some s \<Rightarrow> if s = [] then ''unknown'' else s)
                     @ '';claimed:null''),
                c_name := (if isPremium (snd (getPremiumState guilds (c_guildId ch) now))
                              \<and> autoTagClaims (feats (snd (getPremiumState guilds (c_guildId ch) now)))
                              \<and> startsWith (toLowerCase (c_name ch)) ''claimed-''
                           then take 90 (if strip_claimed (c_name ch) = [] then ''ticket''
                                         else strip_claimed (c_name ch))
                           else c_name ch) \<rparr>,
            TicketUnclaimed)"
proof -
  have "c \<noteq> []" using parseTopic_good [of "c_topic ch"] assms(3) by simp
  then show ?thesis
    using assms canManageTicket_text [OF assms(2)]
    by (auto simp: unclaim_command_def Let_def split_beta)
qed

lemma unclaim_topic:
  "parseTopic (Some (''opened:''
            @ (case opened (parseTopic t) of None \<Rightarrow> ''unknown'' | Some s \<Rightarrow> if s = [] then ''unknown'' else s)
            @ '';claimed:null''))
   = \<lparr> opened = Some (case opened (parseTopic t) of None \<Rightarrow> ''unknown'' | Some s \<Rightarrow> s),
       claimed = None \<rparr>"
  using command_topic [of "''null''" t] by simp

text \<open>
  Claim C5, as amended. Unclaim is guarded. An actor who fails the checks that come first
  (ticket channel, \<^verbatim>\<open>canManageTicket\<close>) is refused with nothing changed. For an actor who
  passes them: on a ticket that is not claimed the reply is the not-claimed error; on a
  ticket claimed by someone else, an actor who is no admin gets a forbidden error; in both
  cases nothing changes. The claimer is cleared only for the current claimer or an admin,
  and whenever such an actor passes the checks; the opener is kept; and the name loses
  its \<^verbatim>\<open>claimed-\<close> prefix exactly when premium is active with \<^verbatim>\<open>autoTagClaims\<close> on and
  the name has that prefix, else the name stays.
\<close>

theorem unclaim_guarded:
  assumes r: "r = unclaim_command cfgs guilds now m ch"
    and t: "t = parseTopic (c_topic ch)"
    and p: "prem = snd (getPremiumState guilds (c_guildId ch) now)"
  shows "(\<not> (c_type ch = GuildText \<and> isTicketChannel cfgs ch \<and> canManageTicket cfgs m ch)
            \<longrightarrow> fst r = guilds \<and> fst (snd r) = ch
                \<and> (snd (snd r) = NotInTicket \<or> snd (snd r) = NotAllowed))
       \<and> (isTicketChannel cfgs ch \<and> canManageTicket cfgs m ch \<and> claimed t = None
            \<longrightarrow> r = (guilds, ch, NotClaimed))
       \<and> (isTicketChannel cfgs ch \<and> canManageTicket cfgs m ch \<and> claimed t = Some c
            \<and> c \<noteq> m_id m \<and> \<not> isAdmin cfgs m
            \<longrightarrow> r = (guilds, ch, OnlyClaimerOrAdmin c) \<and> forbidden (snd (snd r)))
       \<and> (isTicketChannel cfgs ch \<and> canManageTicket cfgs m ch \<and> claimed t = Some c
            \<and> (c = m_id m \<or> isAdmin cfgs m)
            \<longrightarrow> snd (snd r) = TicketUnclaimed
                \<and> claimed (parseTopic (c_topic (fst (snd r)))) = None
                \<and> opened (parseTopic (c_topic (fst (snd r))))
                    = Some (case opened t of None \<Rightarrow> ''unknown'' | Some s \<Rightarrow> s)
                \<and> c_name (fst (snd r))
                    = (if isPremium prem \<and> autoTagClaims (feats prem)
                          \<and> startsWith (toLowerCase (c_name ch)) ''claimed-''
                       then take 90 (if strip_claimed (c_name ch) = [] then ''ticket''
                                     else strip_claimed (c_name ch))
                       else c_name ch))
       \<and> (snd (snd r) = TicketUnclaimed
            \<longrightarrow> (\<exists>k. claimed t = Some k \<and> (k = m_id m \<or> isAdmin cfgs m)))
       \<and> (snd (snd r) \<noteq> TicketUnclaimed \<longrightarrow> fst r = guilds \<and> fst (snd r) = ch)"
proof -
  have A: "\<not> (c_type ch = GuildText \<and> isTicketChannel cfgs ch \<and> canManageTicket cfgs m ch)
            \<longrightarrow> fst r = guilds \<and> fst (snd r) = ch
                \<and> (snd (snd r) = NotInTicket \<or> snd (snd r) = NotAllowed)"
    using unclaim_refused_guard [of ch cfgs m guilds now] by (simp add: r)
  have B: "isTicketChannel cfgs ch \<and> canManageTicket cfgs m ch \<and> claimed t = None
            \<longrightarrow> r = (guilds, ch, NotClaimed)"
    using unclaim_not_claimed [of cfgs ch m guilds now] by (simp add: r t)
  have C: "isTicketChannel cfgs ch \<and> canManageTicket cfgs m ch \<and> claimed t = Some c
            \<and> c \<noteq> m_id m \<and> \<not> isAdmin cfgs m
            \<longrightarrow> r = (guilds, ch, OnlyClaimerOrAdmin c) \<and> forbidden (snd (snd r))"
    using unclaim_other [of cfgs ch m c guilds now] by (simp add: r t)
  have D: "isTicketChannel cfgs ch \<and> canManageTicket cfgs m ch \<and> claimed t = Some c
            \<and> (c = m_id m \<or> isAdmin cfgs m)
            \<longrightarrow> snd (snd r) = TicketUnclaimed
                \<and> claimed (parseTopic (c_topic (fst (snd r)))) = None
                \<and> opened (parseTopic (c_topic (fst (snd r))))
                    = Some (case opened t of None \<Rightarrow> ''unknown'' | Some s \<Rightarrow> s)
                \<and> c_name (fst (snd r))
                    = (if isPremium prem \<and> autoTagClaims (feats prem)
                          \<and> startsWith (toLowerCase (c_name ch)) ''claimed-''
                       then take 90 (if strip_claimed (c_name ch) = [] then ''ticket''
                                     else strip_claimed (c_name ch))
                       else c_name ch)"
  proof
    assume h: "isTicketChannel cfgs ch \<and> canManageTicket cfgs m ch \<and> claimed t = Some c
            \<and> (c = m_id m \<or> isAdmin cfgs m)"
    then have e: "r = (fst (getPremiumState guilds (c_guildId ch) now),
            ch\<lparr> c_topic := Some (''opened:''
                     @ (case opened (parseTopic (c_topic ch)) of
                          None \<Rightarrow> ''unknown'' | Some s \<Rightarrow> if s = [] then ''unknown'' else s)
                     @ '';claimed:null''),
                c_name := (if isPremium (snd (getPremiumState guilds (c_guildId ch) now))
                              \<and> autoTagClaims (feats (snd (getPremiumState guilds (c_guildId ch) now)))
                              \<and> startsWith (toLowerCase (c_name ch)) ''claimed-''
                           then take 90 (if strip_claimed (c_name ch) = [] then ''ticket''
                                         else strip_claimed (c_name ch))
                           else c_name ch) \<rparr>,
            TicketUnclaimed)"
      using unclaim_done [of cfgs ch m c guilds now] by (simp add: r t)
    show "snd (snd r) = TicketUnclaimed
                \<and> claimed (parseTopic (c_topic (fst (snd r)))) = None
                \<and> opened (parseTopic (c_topic (fst (snd r))))
                    = Some (case opened t of None \<Rightarrow> ''unknown'' | Some s \<Rightarrow> s)
                \<and> c_name (fst (snd r))
                    = (if isPremium prem \<and> autoTagClaims (feats prem)
                          \<and> startsWith (toLowerCase (c_name ch)) ''claimed-''
                       then take 90 (if strip_claimed (c_name ch) = [] then ''ticket''
                                     else strip_claimed (c_name ch))
                       else c_name ch)"
    proof -
      have ct: "c_topic (fst (snd r))
                 = Some (''opened:''
                     @ (case opened (parseTopic (c_topic ch)) of
                          None \<Rightarrow> ''unknown'' | Some s \<Rightarrow> if s = [] then ''unknown'' else s)
                     @ '';claimed:null'')"
        by (simp add: e)
      have pt: "parseTopic (c_topic (fst (snd r)))
                 = \<lparr> opened = Some (case opened (parseTopic (c_topic ch)) of
                                      None \<Rightarrow> ''unknown'' | Some s \<Rightarrow> s),
                     claimed = None \<rparr>"
        unfolding ct by (rule unclaim_topic)
      have nm: "c_name (fst (snd r))
                 = (if isPremium prem \<and> autoTagClaims (feats prem)
                       \<and> startsWith (toLowerCase (c_name ch)) ''claimed-''
                    then take 90 (if strip_claimed (c_name ch) = [] then ''ticket''
                                  else strip_claimed (c_name ch))
                    else c_name ch)"
        by (simp add: e p)
      have rp: "snd (snd r) = TicketUnclaimed"
        by (simp add: e)
      from rp pt nm show ?thesis by (simp add: t)
    qed
  qed
  have E: "snd (snd r) = TicketUnclaimed
            \<longrightarrow> (\<exists>k. claimed t = Some k \<and> (k = m_id m \<or> isAdmin cfgs m))"
  proof
    assume u: "snd (snd r) = TicketUnclaimed"
    show "\<exists>k. claimed t = Some k \<and> (k = m_id m \<or> isAdmin cfgs m)"
    proof (cases "c_type ch = GuildText \<and> isTicketChannel cfgs ch \<and> canManageTicket cfgs m ch")
      case False
      with u unclaim_refused_guard [of ch cfgs m guilds now] show ?thesis
        by (simp add: r split: if_splits)
    next
      case True
      show ?thesis
      proof (cases "claimed t")
        case None
        with True u unclaim_not_claimed [of cfgs ch m guilds now] show ?thesis by (simp add: r t)
      next
        case (Some k)
        show ?thesis
        proof (cases "k = m_id m \<or> isAdmin cfgs m")
          case True
          with Some show ?thesis by simp
        next
          case False
          with \<open>c_type ch = GuildText \<and> isTicketChannel cfgs ch \<and> canManageTicket cfgs m ch\<close>
            Some u unclaim_other [of cfgs ch m k guilds now]
          show ?thesis by (simp add: r t)
        qed
      qed
    qed
  qed
  have F: "snd (snd r) \<noteq> TicketUnclaimed \<longrightarrow> fst r = guilds \<and> fst (snd r) = ch"
  proof
    assume u: "snd (snd r) \<noteq> TicketUnclaimed"
    show "fst r = guilds \<and> fst (snd r) = ch"
    proof (cases "c_type ch = GuildText \<and> isTicketChannel cfgs ch \<and> canManageTicket cfgs m ch")
      case False
      with unclaim_refused_guard [of ch cfgs m guilds now] show ?thesis by (simp add: r)
    next
      case True
      show ?thesis
      proof (cases "claimed t")
        case None
        with True unclaim_not_claimed [of cfgs ch m guilds now] show ?thesis by (simp add: r t)
      next
        case (Some k)
        show ?thesis
        proof (cases "k = m_id m \<or> isAdmin cfgs m")
          case False
          with True Some unclaim_other [of cfgs ch m k guilds now] show ?thesis by (simp add: r t)
        next
          case yes: True
          with True Some u unclaim_done [of cfgs ch m k guilds now] show ?thesis by (simp add: r t)
        qed
      qed
    qed
  qed
  from A B C D E F show ?thesis by blast
qed

theorem unclaim_guarded_witness:
  "unclaim_command ex_cfgs ex_autotag 1700000000000 ex_staff ex_free
     = (ex_autotag, ex_free, NotClaimed)
   \<and> unclaim_command ex_cfgs ex_autotag 1700000000000 ex_staff2 ex_tagged
     = (ex_autotag, ex_tagged, OnlyClaimerOrAdmin ''222222222222222222'')
   \<and> snd (snd (unclaim_command ex_cfgs ex_autotag 1700000000000 ex_staff ex_tagged)) = TicketUnclaimed
   \<and> claimed (parseTopic (c_topic (fst (snd
        (unclaim_command ex_cfgs ex_autotag 1700000000000 ex_staff ex_tagged))))) = None
   \<and> c_name (fst (snd (unclaim_command ex_cfgs ex_autotag 1700000000000 ex_staff ex_tagged)))
       = ''ticket-bob''"
proof -
  have g1: "isTicketChannel ex_cfgs ex_free" and g2: "canManageTicket ex_cfgs ex_staff ex_free"
    and g3: "isTicketChannel ex_cfgs ex_tagged" and g4: "canManageTicket ex_cfgs ex_staff2 ex_tagged"
    and g5: "canManageTicket ex_cfgs ex_staff ex_tagged"
    by code_simp+
  have f1: "claimed (parseTopic (c_topic ex_free)) = None"
    and f2: "claimed (parseTopic (c_topic ex_tagged)) = Some ''222222222222222222''"
    by code_simp+
  have o1: "''222222222222222222'' \<noteq> m_id ex_staff2" and o2: "\<not> isAdmin ex_cfgs ex_staff2"
    and o3: "''222222222222222222'' = m_id ex_staff"
    by code_simp+
  have nm: "(if isPremium (snd (getPremiumState ex_autotag (c_guildId ex_tagged) 1700000000000))
                \<and> autoTagClaims (feats (snd (getPremiumState ex_autotag (c_guildId ex_tagged) 1700000000000)))
                \<and> startsWith (toLowerCase (c_name ex_tagged)) ''claimed-''
             then take 90 (if strip_claimed (c_name ex_tagged) = [] then ''ticket''
                           else strip_claimed (c_name ex_tagged))
             else c_name ex_tagged) = ''ticket-bob''"
    by code_simp
  note a = unclaim_guarded [where r = "unclaim_command ex_cfgs ex_autotag 1700000000000 ex_staff ex_free"
      and cfgs = ex_cfgs and guilds = ex_autotag and now = 1700000000000 and m = ex_staff
      and ch = ex_free, OF refl refl refl]
  note b = unclaim_guarded [where r = "unclaim_command ex_cfgs ex_autotag 1700000000000 ex_staff2 ex_tagged"
      and cfgs = ex_cfgs and guilds = ex_autotag and now = 1700000000000 and m = ex_staff2
      and ch = ex_tagged and c = "''222222222222222222''", OF refl refl refl]
  note c = unclaim_guarded [where r = "unclaim_command ex_cfgs ex_autotag 1700000000000 ex_staff ex_tagged"
      and cfgs = ex_cfgs and guilds = ex_autotag and now = 1700000000000 and m = ex_staff
      and ch = ex_tagged and c = "''222222222222222222''", OF refl refl refl]
  have A: "unclaim_command ex_cfgs ex_autotag 1700000000000 ex_staff ex_free
             = (ex_autotag, ex_free, NotClaimed)"
    using a g1 g2 f1 by blast
  have B: "unclaim_command ex_cfgs ex_autotag 1700000000000 ex_staff2 ex_tagged
             = (ex_autotag, ex_tagged, OnlyClaimerOrAdmin ''222222222222222222'')"
    using b g3 g4 f2 o1 o2 by blast
  have C: "snd (snd (unclaim_command ex_cfgs ex_autotag 1700000000000 ex_staff ex_tagged)) = TicketUnclaimed
   \<and> claimed (parseTopic (c_topic (fst (snd
        (unclaim_command ex_cfgs ex_autotag 1700000000000 ex_staff ex_tagged))))) = None
   \<and> c_name (fst (snd (unclaim_command ex_cfgs ex_autotag 1700000000000 ex_staff ex_tagged)))
       = (if isPremium (snd (getPremiumState ex_autotag (c_guildId ex_tagged) 1700000000000))
                \<and> autoTagClaims (feats (snd (getPremiumState ex_autotag (c_guildId ex_tagged) 1700000000000)))
                \<and> startsWith (toLowerCase (c_name ex_tagged)) ''claimed-''
             then take 90 (if strip_claimed (c_name ex_tagged) = [] then ''ticket''
                           else strip_claimed (c_name ex_tagged))
             else c_name ex_tagged)"
    using c g3 g5 f2 o3 by blast
  from A B C nm show ?thesis by (simp only:) 
qed

text \<open>
  Claim C5 as it is stated fails in two places. On a ticket that is not claimed, a member
  with no staff role gets the permission refusal, not the not-claimed error. And on a
  ticket named \<^verbatim>\<open>claimed-ticket-bob\<close> in a guild without premium, the claimer's unclaim
  succeeds and the name keeps its prefix.
\<close>

theorem unclaim_not_as_claimed:
  "claimed (parseTopic (c_topic ex_free)) = None
   \<and> snd (snd (unclaim_command ex_cfgs Map.empty 1700000000000 ex_outsider ex_free)) = NotAllowed
   \<and> claimed (parseTopic (c_topic ex_tagged)) = Some (m_id ex_staff)
   \<and> snd (snd (unclaim_command ex_cfgs Map.empty 1700000000000 ex_staff ex_tagged)) = TicketUnclaimed
   \<and> c_name (fst (snd (unclaim_command ex_cfgs Map.empty 1700000000000 ex_staff ex_tagged)))
       = ''claimed-ticket-bob''"
  by code_simp

section \<open>Properties of the stored configuration\<close>

text \<open>
  Claim C8, as amended. For a stored guild configuration with none of the keys
  \<^verbatim>\<open>supportEnabled\<close>, \<^verbatim>\<open>tradeEnabled\<close> and \<^verbatim>\<open>logsEnabled\<close>, \<^verbatim>\<open>getGuildConfig\<close> reports
  each feature as enabled exactly when the corresponding category or channel id is set
  (neither \<^verbatim>\<open>null\<close> nor empty). The inference is made on each read; the first
  \<^verbatim>\<open>saveGuildConfig\<close> for the guild then writes each toggle into the stored entry, as it
  was inferred unless the patch sets it.
\<close>

theorem legacy_toggles_inferred_on_read:
  assumes "cfgs g = Some s"
    and "s_supportEnabled s = None" and "s_tradeEnabled s = None" and "s_logsEnabled s = None"
  shows "supportEnabled (getGuildConfig cfgs g) = truthy (s_supportCategoryId s)
       \<and> tradeEnabled (getGuildConfig cfgs g) = truthy (s_mmCategoryId s)
       \<and> logsEnabled (getGuildConfig cfgs g) = truthy (s_logChannelId s)
       \<and> map_option s_supportEnabled (fst (saveGuildConfig cfgs g p) g)
           = Some (Some (over (truthy (s_supportCategoryId s)) (p_supportEnabled p)))
       \<and> map_option s_tradeEnabled (fst (saveGuildConfig cfgs g p) g)
           = Some (Some (over (truthy (s_mmCategoryId s)) (p_tradeEnabled p)))
       \<and> map_option s_logsEnabled (fst (saveGuildConfig cfgs g p) g)
           = Some (Some (over (truthy (s_logChannelId s)) (p_logsEnabled p)))"
  using assms by (simp add: saveGuildConfig_def getGuildConfig_def Let_def)

theorem legacy_toggles_inferred_on_read_witness:
  "supportEnabled (getGuildConfig [ex_guild \<mapsto> empty_config\<lparr>s_supportCategoryId := Some ex_category\<rparr>] ex_guild)
   \<and> \<not> tradeEnabled (getGuildConfig [ex_guild \<mapsto> empty_config\<lparr>s_supportCategoryId := Some ex_category\<rparr>] ex_guild)
   \<and> map_option s_supportEnabled
        (fst (saveGuildConfig [ex_guild \<mapsto> empty_config\<lparr>s_supportCategoryId := Some ex_category\<rparr>]
                ex_guild (empty_patch\<lparr>p_mmCategoryId := Some (Some ex_category)\<rparr>)) ex_guild)
       = Some (Some True)
   \<and> map_option s_tradeEnabled
        (fst (saveGuildConfig [ex_guild \<mapsto> empty_config\<lparr>s_supportCategoryId := Some ex_category\<rparr>]
                ex_guild (empty_patch\<lparr>p_mmCategoryId := Some (Some ex_category)\<rparr>)) ex_guild)
       = Some (Some False)"
  using legacy_toggles_inferred_on_read
          [of "[ex_guild \<mapsto> empty_config\<lparr>s_supportCategoryId := Some ex_category\<rparr>]" ex_guild
              "empty_config\<lparr>s_supportCategoryId := Some ex_category\<rparr>"
              "empty_patch\<lparr>p_mmCategoryId := Some (Some ex_category)\<rparr>"]
  by (simp add: empty_config_def empty_patch_def truthy_def over_def ex_category_def)

text \<open>
  Claim C8 as it is stated fails where it says that the inference is not stored. A stored
  entry that has a support category and no toggle is saved with a patch that only sets
  the admin roles: the stored entry then holds \<^verbatim>\<open>supportEnabled: true\<close>, the inferred
  value, as an explicit key.
\<close>

theorem inferred_toggle_is_stored:
  "s_supportEnabled (empty_config\<lparr>s_supportCategoryId := Some ''555555555555555555''\<rparr>) = None
   \<and> map_option s_supportEnabled
        (fst (saveGuildConfig
                [''900000000000000001'' \<mapsto> empty_config\<lparr>s_supportCategoryId := Some ''555555555555555555''\<rparr>]
                ''900000000000000001'' (empty_patch\<lparr>p_adminRoles := Some []\<rparr>))
           ''900000000000000001'')
       = Some (Some True)"
  by (simp add: saveGuildConfig_def getGuildConfig_def empty_config_def empty_patch_def
      truthy_def over_def Let_def)

section \<open>Properties of the dashboard route\<close>

text \<open>
  Claim C7 says that \<^verbatim>\<open>POST /server/:guildId/save\<close> writes the submitted fields into the
  stored configuration. The route never does: for every store, guild and form it leaves
  the configurations as they were and sets the flash \<^verbatim>\<open>Save failed.\<close>, because the
  function it calls does not exist. A form that sets the support category leaves the
  category unset, where \<^verbatim>\<open>saveGuildConfig\<close> with the same patch sets it.
\<close>

theorem dashboard_save_writes_nothing:
  "dashboard_save cfgs g body = (cfgs, SaveFailed)
   \<and> supportCategoryId (getGuildConfig (fst (dashboard_save Map.empty ex_guild ex_form)) ex_guild) = None
   \<and> supportCategoryId
        (getGuildConfig (fst (saveGuildConfig Map.empty ex_guild (form_patch ex_form))) ex_guild)
       = Some ''555555555555555555''"
proof -
  have a: "dashboard_save cfgs g body = (cfgs, SaveFailed)" for cfgs g body
    by (simp add: dashboard_save_def patchGuildConfig_def)
  have b: "supportCategoryId (getGuildConfig Map.empty ex_guild) = None"
    by (simp add: getGuildConfig_def empty_config_def)
  have c: "supportCategoryId
        (getGuildConfig (fst (saveGuildConfig Map.empty ex_guild (form_patch ex_form))) ex_guild)
       = Some ''555555555555555555''"
    by code_simp
  from a b c show ?thesis by simp
qed

section \<open>Properties of the premium state\<close>

lemma premium_raw_update_literal:
  "\<lparr> r_isPremium = a, r_plan = b, r_activatedAt = c, r_expiresAt = d,
     r_branding = r_branding r, r_features = r_features r \<rparr>
   = r\<lparr> r_isPremium := a, r_plan := b, r_activatedAt := c, r_expiresAt := d \<rparr>"
  by (cases r) simp

text \<open>
  Claim C3. Expiry is enforced lazily and for good. For a stored premium entry whose
  \<^verbatim>\<open>expiresAt\<close> parses to an instant before the current time, \<^verbatim>\<open>getPremiumState\<close> returns
  \<^verbatim>\<open>isPremium = false\<close>; the store it leaves holds the entry with \<^verbatim>\<open>isPremium = false\<close>
  (the entry demoted when it was premium, untouched otherwise); every later read, at any
  time, leaves that store as it is and returns the same state; and the state returned by
  the first read is the one read from the demoted store, feature flags included.
\<close>

theorem expiry_demotes:
  assumes "guilds g = Some s" and "r_expiresAt s = Some e" and "Date_parse e = Some ms"
    and "ms < now"
  shows "\<not> isPremium (snd (getPremiumState guilds g now))
       \<and> fst (getPremiumState guilds g now)
           = (if r_isPremium s then guilds(g \<mapsto> s\<lparr>r_isPremium := False\<rparr>) else guilds)
       \<and> map_option r_isPremium (fst (getPremiumState guilds g now) g) = Some False
       \<and> fst (getPremiumState (fst (getPremiumState guilds g now)) g later)
           = fst (getPremiumState guilds g now)
       \<and> snd (getPremiumState (fst (getPremiumState guilds g now)) g later)
           = snd (getPremiumState guilds g now)"
  using assms
  by (simp add: getPremiumState_def ensurePremiumActiveOrExpire_def Let_def)

theorem expiry_demotes_witness:
  "\<not> isPremium (snd (getPremiumState [ex_guild \<mapsto> ex_premium 1690000005000] ex_guild 1700000000000))
   \<and> map_option r_isPremium
        (fst (getPremiumState [ex_guild \<mapsto> ex_premium 1690000005000] ex_guild 1700000000000) ex_guild)
       = Some False
   \<and> \<not> isPremium
         (snd (getPremiumState
                 (fst (getPremiumState [ex_guild \<mapsto> ex_premium 1690000005000] ex_guild 1700000000000))
                 ex_guild 1700000009000))"
proof -
  have t: "\<not> isPremium (snd (getPremiumState [ex_guild \<mapsto> ex_premium 1690000005000] ex_guild 1700000000000))
       \<and> fst (getPremiumState [ex_guild \<mapsto> ex_premium 1690000005000] ex_guild 1700000000000)
           = (if r_isPremium (ex_premium 1690000005000)
              then [ex_guild \<mapsto> ex_premium 1690000005000]
                     (ex_guild \<mapsto> (ex_premium 1690000005000)\<lparr>r_isPremium := False\<rparr>)
              else [ex_guild \<mapsto> ex_premium 1690000005000])
       \<and> map_option r_isPremium
            (fst (getPremiumState [ex_guild \<mapsto> ex_premium 1690000005000] ex_guild 1700000000000) ex_guild)
           = Some False
       \<and> fst (getPremiumState
                (fst (getPremiumState [ex_guild \<mapsto> ex_premium 1690000005000] ex_guild 1700000000000))
                ex_guild 1700000009000)
           = fst (getPremiumState [ex_guild \<mapsto> ex_premium 1690000005000] ex_guild 1700000000000)
       \<and> snd (getPremiumState
                (fst (getPremiumState [ex_guild \<mapsto> ex_premium 1690000005000] ex_guild 1700000000000))
                ex_guild 1700000009000)
           = snd (getPremiumState [ex_guild \<mapsto> ex_premium 1690000005000] ex_guild 1700000000000)"
    by (rule expiry_demotes [where e = "ISO 1690000005000" and ms = 1690000005000])
      (simp_all add: ex_premium_def Date_parse_def)
  then show ?thesis by metis
qed

section \<open>Properties of the redemption of keys\<close>

lemma redeem_unused:
  assumes "redeem_request msg gid key" and "keys key = Some k" and "\<not> k_used k"
  shows "premium_redeem keys guilds now msg =
          (let keys' = keys(key \<mapsto> k\<lparr> k_used := True, k_usedByGuildId := Some gid,
                                       k_usedAt := Some (ISO now) \<rparr>);
               current = (case guilds gid of None \<Rightarrow> empty_premium | Some r \<Rightarrow> r);
               t = redeem_base current now + key_addMs k
           in if valid_time t
              then (keys',
                    fst (savePremiumState guilds gid
                          \<lparr> pp_isPremium = Some True,
                            pp_plan = Some (if truthy (k_plan k) then k_plan k else Some ''custom''),
                            pp_activatedAt = Some (case r_activatedAt current of
                                                     Some a \<Rightarrow> Some a | None \<Rightarrow> Some (ISO now)),
                            pp_expiresAt = Some (Some (ISO t)),
                            pp_branding = None, pp_features = None \<rparr> now),
                    Inr PremiumActivated)
              else (keys', guilds, Inl RangeError))"
  using assms
  by (auto simp: premium_redeem_def redeem_request_def Let_def toISOString_def
      split: list.splits)

lemma redeem_used:
  assumes "redeem_request msg gid key" and "keys key = Some k" and "k_used k"
  shows "premium_redeem keys guilds now msg = (keys, guilds, Inr KeyAlreadyUsed)"
  using assms
  by (auto simp: premium_redeem_def redeem_request_def Let_def split: list.splits)

lemma save_redeem_patch:
  assumes "now \<le> t"
  shows "fst (savePremiumState guilds gid
                \<lparr> pp_isPremium = Some True, pp_plan = Some pl, pp_activatedAt = Some act,
                  pp_expiresAt = Some (Some (ISO t)), pp_branding = None, pp_features = None \<rparr> now)
         = guilds(gid \<mapsto>
             (case guilds gid of None \<Rightarrow> empty_premium | Some r \<Rightarrow> r)
               \<lparr> r_isPremium := True, r_plan := pl, r_activatedAt := act,
                  r_expiresAt := Some (ISO t) \<rparr>)"
  using assms
  by (simp add: savePremiumState_def getPremiumState_def ensurePremiumActiveOrExpire_def
      Let_def over_def merge_branding_def merge_features_def Date_parse_def
      premium_raw_update_literal)

text \<open>
  Claim C1. A license key is used once. When the owner of a guild redeems a key that is
  stored and not used, the key is stored afterwards with \<^verbatim>\<open>used = true\<close>, the guild as
  \<^verbatim>\<open>usedByGuildId\<close> and the time as \<^verbatim>\<open>usedAt\<close>, and the redemption succeeds (the new
  expiry being an instant a \<^verbatim>\<open>Date\<close> can hold). Every later redemption of that key, by the
  owner of any guild, at any time and whatever the premium states are then, is refused
  as already used and changes neither the keys nor the premium states.
\<close>

theorem key_single_use:
  assumes "redeem_request msg gid key" and "keys key = Some k" and "\<not> k_used k"
    and "redeem_request msg2 gid2 key"
    and "keys1 = fst (premium_redeem keys guilds now msg)"
  shows "keys1 = keys(key \<mapsto> k\<lparr> k_used := True, k_usedByGuildId := Some gid,
                                   k_usedAt := Some (ISO now) \<rparr>)
       \<and> (valid_time (redeem_base (case guilds gid of None \<Rightarrow> empty_premium | Some r \<Rightarrow> r) now
                        + key_addMs k)
            \<longrightarrow> snd (snd (premium_redeem keys guilds now msg)) = Inr PremiumActivated)
       \<and> premium_redeem keys1 guilds2 now2 msg2 = (keys1, guilds2, Inr KeyAlreadyUsed)"
proof -
  have k1: "keys1 = keys(key \<mapsto> k\<lparr> k_used := True, k_usedByGuildId := Some gid,
                                   k_usedAt := Some (ISO now) \<rparr>)"
    using assms(1-3,5) redeem_unused [of msg gid key keys k guilds now] by (simp add: Let_def)
  have ok: "valid_time (redeem_base (case guilds gid of None \<Rightarrow> empty_premium | Some r \<Rightarrow> r) now
                        + key_addMs k)
            \<longrightarrow> snd (snd (premium_redeem keys guilds now msg)) = Inr PremiumActivated"
    using assms(1-3) redeem_unused [of msg gid key keys k guilds now] by (simp add: Let_def)
  have "premium_redeem keys1 guilds2 now2 msg2 = (keys1, guilds2, Inr KeyAlreadyUsed)"
    using assms(4) redeem_used [of msg2 gid2 key keys1
        "k\<lparr> k_used := True, k_usedByGuildId := Some gid, k_usedAt := Some (ISO now) \<rparr>" guilds2 now2]
    by (simp add: k1)
  with k1 ok show ?thesis by simp
qed

theorem key_single_use_witness:
  "redeem_request ex_msg ex_guild ''DS-ABCD-EFGH-JKLM''
   \<and> ex_keys ''DS-ABCD-EFGH-JKLM'' = Some ex_key \<and> \<not> k_used ex_key
   \<and> fst (premium_redeem ex_keys Map.empty 1700000000000 ex_msg)
       = ex_keys(''DS-ABCD-EFGH-JKLM'' \<mapsto>
           ex_key\<lparr> k_used := True, k_usedByGuildId := Some ex_guild,
                    k_usedAt := Some (ISO 1700000000000) \<rparr>)
   \<and> snd (snd (premium_redeem ex_keys Map.empty 1700000000000 ex_msg)) = Inr PremiumActivated
   \<and> premium_redeem (fst (premium_redeem ex_keys Map.empty 1700000000000 ex_msg))
        (fst (snd (premium_redeem ex_keys Map.empty 1700000000000 ex_msg))) 1700000005000 ex_msg
       = (fst (premium_redeem ex_keys Map.empty 1700000000000 ex_msg),
          fst (snd (premium_redeem ex_keys Map.empty 1700000000000 ex_msg)),
          Inr KeyAlreadyUsed)"
proof -
  have a: "redeem_request ex_msg ex_guild ''DS-ABCD-EFGH-JKLM''"
    by code_simp
  have b: "ex_keys ''DS-ABCD-EFGH-JKLM'' = Some ex_key" and c: "\<not> k_used ex_key"
    by (simp_all add: ex_keys_def ex_key_def)
  have v: "valid_time (redeem_base (case Map.empty ex_guild of None \<Rightarrow> empty_premium | Some r \<Rightarrow> r)
                         1700000000000 + key_addMs ex_key)"
    by code_simp
  note t = key_single_use [of ex_msg ex_guild "''DS-ABCD-EFGH-JKLM''" ex_keys ex_key ex_msg ex_guild
        "fst (premium_redeem ex_keys Map.empty 1700000000000 ex_msg)" Map.empty 1700000000000
        "fst (snd (premium_redeem ex_keys Map.empty 1700000000000 ex_msg))" 1700000005000,
        OF a b c a refl]
  show ?thesis
    using a b c v t by blast
qed

text \<open>
  Claim C2. Redeeming a key of duration \<open>D\<close> (not negative) extends premium. When the
  current \<^verbatim>\<open>expiresAt\<close> of the guild is \<open>now + X\<close> with \<open>X > 0\<close>, the new \<^verbatim>\<open>expiresAt\<close> is
  \<open>now + X + D\<close>; when it is absent or not after \<open>now\<close>, the new \<^verbatim>\<open>expiresAt\<close> is
  \<open>now + D\<close> (in both cases the new instant being one a \<^verbatim>\<open>Date\<close> can hold). The
  redemption sets \<^verbatim>\<open>isPremium = true\<close> and keeps the \<^verbatim>\<open>activatedAt\<close> that was stored.
\<close>

theorem redeem_extends:
  assumes "redeem_request msg gid key" and "keys key = Some k" and "\<not> k_used k"
    and "k_durationMs k = Some D" and "0 \<le> D"
    and "cur = (case guilds gid of None \<Rightarrow> empty_premium | Some r \<Rightarrow> r)"
    and "after = fst (snd (premium_redeem keys guilds now msg)) gid"
  shows "(r_expiresAt cur = Some (ISO (now + X)) \<and> 0 < X \<and> valid_time (now + X + D)
            \<longrightarrow> map_option r_expiresAt after = Some (Some (ISO (now + X + D)))
                \<and> map_option r_isPremium after = Some True
                \<and> (\<forall>a. r_activatedAt cur = Some a \<longrightarrow> map_option r_activatedAt after = Some (Some a)))
       \<and> ((r_expiresAt cur = None \<or> (\<exists>Y. r_expiresAt cur = Some (ISO (now - Y)) \<and> 0 \<le> Y))
             \<and> valid_time (now + D)
            \<longrightarrow> map_option r_expiresAt after = Some (Some (ISO (now + D)))
                \<and> map_option r_isPremium after = Some True
                \<and> (\<forall>a. r_activatedAt cur = Some a \<longrightarrow> map_option r_activatedAt after = Some (Some a)))"
proof -
  have add: "key_addMs k = D" using assms(4) by (simp add: key_addMs_def)
  have ru: "premium_redeem keys guilds now msg =
          (if valid_time (redeem_base cur now + D)
           then (keys(key \<mapsto> k\<lparr> k_used := True, k_usedByGuildId := Some gid,
                                       k_usedAt := Some (ISO now) \<rparr>),
                 fst (savePremiumState guilds gid
                       \<lparr> pp_isPremium = Some True,
                         pp_plan = Some (if truthy (k_plan k) then k_plan k else Some ''custom''),
                         pp_activatedAt = Some (case r_activatedAt cur of
                                                  Some a \<Rightarrow> Some a | None \<Rightarrow> Some (ISO now)),
                         pp_expiresAt = Some (Some (ISO (redeem_base cur now + D))),
                         pp_branding = None, pp_features = None \<rparr> now),
                 Inr PremiumActivated)
           else (keys(key \<mapsto> k\<lparr> k_used := True, k_usedByGuildId := Some gid,
                                       k_usedAt := Some (ISO now) \<rparr>), guilds, Inl RangeError))"
    using assms(1-3) redeem_unused [of msg gid key keys k guilds now]
    by (simp add: Let_def add assms(6))
  show ?thesis
  proof (intro conjI impI)
    assume h: "r_expiresAt cur = Some (ISO (now + X)) \<and> 0 < X \<and> valid_time (now + X + D)"
    then have b: "redeem_base cur now = now + X"
      by (simp add: redeem_base_def Date_parse_def)
    have le: "now \<le> now + X + D" using h assms(5) by simp
    have "after = Some (cur\<lparr> r_isPremium := True,
               r_plan := (if truthy (k_plan k) then k_plan k else Some ''custom''),
               r_activatedAt := (case r_activatedAt cur of Some a \<Rightarrow> Some a | None \<Rightarrow> Some (ISO now)),
               r_expiresAt := Some (ISO (now + X + D)) \<rparr>)"
      using ru h b save_redeem_patch [OF le] by (simp add: assms(6,7))
    then show "map_option r_expiresAt after = Some (Some (ISO (now + X + D)))"
      and "map_option r_isPremium after = Some True"
      and "\<forall>a. r_activatedAt cur = Some a \<longrightarrow> map_option r_activatedAt after = Some (Some a)"
      by simp_all
  next
    assume h: "(r_expiresAt cur = None \<or> (\<exists>Y. r_expiresAt cur = Some (ISO (now - Y)) \<and> 0 \<le> Y))
               \<and> valid_time (now + D)"
    then have b: "redeem_base cur now = now"
      by (auto simp: redeem_base_def Date_parse_def)
    have le: "now \<le> now + D" using assms(5) by simp
    have "after = Some (cur\<lparr> r_isPremium := True,
               r_plan := (if truthy (k_plan k) then k_plan k else Some ''custom''),
               r_activatedAt := (case r_activatedAt cur of Some a \<Rightarrow> Some a | None \<Rightarrow> Some (ISO now)),
               r_expiresAt := Some (ISO (now + D)) \<rparr>)"
      using ru h b save_redeem_patch [OF le] by (simp add: assms(6,7))
    then show "map_option r_expiresAt after = Some (Some (ISO (now + D)))"
      and "map_option r_isPremium after = Some True"
      and "\<forall>a. r_activatedAt cur = Some a \<longrightarrow> map_option r_activatedAt after = Some (Some a)"
      by simp_all
  qed
qed

theorem redeem_extends_witness:
  "map_option r_expiresAt
     (fst (snd (premium_redeem ex_keys [ex_guild \<mapsto> ex_premium 1700003600000] 1700000000000 ex_msg))
        ex_guild) = Some (Some (ISO 1700090000000))
   \<and> map_option r_isPremium
     (fst (snd (premium_redeem ex_keys [ex_guild \<mapsto> ex_premium 1700003600000] 1700000000000 ex_msg))
        ex_guild) = Some True
   \<and> map_option r_activatedAt
     (fst (snd (premium_redeem ex_keys [ex_guild \<mapsto> ex_premium 1700003600000] 1700000000000 ex_msg))
        ex_guild) = Some (Some (ISO 1690000000000))
   \<and> map_option r_expiresAt
     (fst (snd (premium_redeem ex_keys Map.empty 1700000000000 ex_msg)) ex_guild)
       = Some (Some (ISO 1700086400000))
   \<and> map_option r_isPremium
     (fst (snd (premium_redeem ex_keys Map.empty 1700000000000 ex_msg)) ex_guild) = Some True"
proof -
  have a: "redeem_request ex_msg ex_guild ''DS-ABCD-EFGH-JKLM''"
    by code_simp
  have b: "ex_keys ''DS-ABCD-EFGH-JKLM'' = Some ex_key" and c: "\<not> k_used ex_key"
    and d: "k_durationMs ex_key = Some 86400000"
    by (simp_all add: ex_keys_def ex_key_def)
  have v1: "valid_time (1700000000000 + 3600000 + 86400000)"
    and v2: "valid_time (1700000000000 + 86400000)"
    by (simp_all add: valid_time_def)
  have e1: "ex_premium 1700003600000
              = (case [ex_guild \<mapsto> ex_premium 1700003600000] ex_guild of
                   None \<Rightarrow> empty_premium | Some r \<Rightarrow> r)"
    and e2: "empty_premium = (case Map.empty ex_guild of None \<Rightarrow> empty_premium | Some r \<Rightarrow> r)"
    by simp_all
  have p1: "r_expiresAt (ex_premium 1700003600000) = Some (ISO (1700000000000 + 3600000))
            \<and> (0::int) < 3600000 \<and> valid_time (1700000000000 + 3600000 + 86400000)"
    using v1 by (simp add: ex_premium_def)
  have p2: "(r_expiresAt empty_premium = None
              \<or> (\<exists>Y. r_expiresAt empty_premium = Some (ISO (1700000000000 - Y)) \<and> 0 \<le> Y))
            \<and> valid_time (1700000000000 + 86400000)"
    using v2 by (simp add: empty_premium_def)
  have p3: "r_activatedAt (ex_premium 1700003600000) = Some (ISO 1690000000000)"
    by (simp add: ex_premium_def)
  have d0: "(0::int) \<le> 86400000"
    by simp
  note t1 = redeem_extends [of ex_msg ex_guild "''DS-ABCD-EFGH-JKLM''" ex_keys ex_key 86400000
        "ex_premium 1700003600000" "[ex_guild \<mapsto> ex_premium 1700003600000]"
        "fst (snd (premium_redeem ex_keys [ex_guild \<mapsto> ex_premium 1700003600000] 1700000000000 ex_msg))
           ex_guild" 1700000000000 3600000, OF a b c d d0 e1 refl]
  note t2 = redeem_extends [of ex_msg ex_guild "''DS-ABCD-EFGH-JKLM''" ex_keys ex_key 86400000
        empty_premium Map.empty
        "fst (snd (premium_redeem ex_keys Map.empty 1700000000000 ex_msg)) ex_guild"
        1700000000000, OF a b c d d0 e2 refl]
  have future:
    "map_option r_expiresAt
       (fst (snd (premium_redeem ex_keys [ex_guild \<mapsto> ex_premium 1700003600000] 1700000000000 ex_msg))
          ex_guild) = Some (Some (ISO (1700000000000 + 3600000 + 86400000)))
     \<and> map_option r_isPremium
       (fst (snd (premium_redeem ex_keys [ex_guild \<mapsto> ex_premium 1700003600000] 1700000000000 ex_msg))
          ex_guild) = Some True
     \<and> map_option r_activatedAt
       (fst (snd (premium_redeem ex_keys [ex_guild \<mapsto> ex_premium 1700003600000] 1700000000000 ex_msg))
          ex_guild) = Some (Some (ISO 1690000000000))"
    using t1 p1 p3 by blast
  have absent:
    "map_option r_expiresAt
       (fst (snd (premium_redeem ex_keys Map.empty 1700000000000 ex_msg)) ex_guild)
         = Some (Some (ISO (1700000000000 + 86400000)))
     \<and> map_option r_isPremium
       (fst (snd (premium_redeem ex_keys Map.empty 1700000000000 ex_msg)) ex_guild) = Some True"
    using t2 p2 by blast
  from future absent show ?thesis by simp
qed


section \<open>Properties of the numbers\<close>

text \<open>
  The rounding agrees with binary64 on well-known cases: one tenth is
  \<open>3602879701896397 / 2^55\<close>; the sum of the numbers for 0.1 and 0.2 is the number printed
  as 0.30000000000000004; \<open>2^53 + 1\<close> rounds to \<open>2^53\<close>; and 2.675, whose binary64
  value lies below it, is printed with two decimals as 2.67.
\<close>

lemma to_double_examples:
  "to_double (1 / 10) = Num (3602879701896397 / 36028797018963968)"
  "jadd (to_double (1 / 10)) (to_double (2 / 10)) = Num (1351079888211149 / 4503599627370496)"
  "to_double 9007199254740993 = Num 9007199254740992"
  "to_double (107 / 40) = Num (3011782250804019 / 1125899906842624)"
  "toFixed2 (to_double (107 / 40)) = to_double (267 / 100)"
  by code_simp+

section \<open>Properties of the parsing of durations\<close>

lemma planToDays_range:
  assumes "planToDays p = Some (pl, days)"
  shows "0 \<le> days \<and> days \<le> 3650
         \<and> (0 < days \<or> (\<exists>n. js_Number (toLowerCase p) = Num n \<and> 0 < n \<and> n < 1))"
proof -
  have fl: "0 \<le> \<lfloor>n\<rfloor> \<and> \<lfloor>n\<rfloor> \<le> 3650 \<and> (0 < \<lfloor>n\<rfloor> \<or> n < 1)"
    if "0 < n" and "n \<le> 3650" for n :: rat
  proof -
    have "0 \<le> \<lfloor>n\<rfloor>" using that by simp
    moreover have "\<lfloor>n\<rfloor> \<le> 3650" using that by (simp add: floor_le_iff)
    moreover have "0 < \<lfloor>n\<rfloor> \<or> n < 1" by linarith
    ultimately show ?thesis by simp
  qed
  show ?thesis
    using assms fl
    by (auto simp: planToDays_def Let_def split: if_splits jsnum.splits)
qed


lemma parseDuration_range:
  assumes "parseDurationToMs s = Some r"
  shows "0 \<le> d_ms r \<and> d_ms r \<le> 315360000000
         \<and> (0 < d_ms r \<or> (\<exists>n. js_Number (toLowerCase (trim s)) = Num n \<and> 0 < n \<and> n < 1))"
proof (cases "planToDays (trim s)")
  case (Some pd)
  obtain pl days where pd: "pd = (pl, days)" by (cases pd)
  note rg = planToDays_range [of "trim s" pl days]
  from assms Some pd have r: "d_ms r = of_int days * 24 * 60 * 60 * 1000"
    by (auto simp: parseDurationToMs_def Let_def split: if_splits)
  have "0 \<le> days" "days \<le> 3650" using rg Some pd by simp_all
  then have b: "0 \<le> d_ms r \<and> d_ms r \<le> 315360000000"
    unfolding r by simp
  have "0 < d_ms r \<or> (\<exists>n. js_Number (toLowerCase (trim s)) = Num n \<and> 0 < n \<and> n < 1)"
    using rg Some pd unfolding r by auto
  with b show ?thesis by simp
next
  case None
  define totalMs where "totalMs = foldl add_match (Num 0) (scan (trim s))"
  from assms None have pos: "jgt totalMs (Num 0)"
    by (auto simp: parseDurationToMs_def Let_def totalMs_def split: if_splits)
  from assms None
  have res: "(if jgt totalMs (Num maxMs) then Num maxMs else totalMs) = Num (d_ms r)"
    by (auto simp: parseDurationToMs_def Let_def totalMs_def split: if_splits jsnum.splits)
  have "0 < d_ms r \<and> d_ms r \<le> maxMs"
  proof (cases "jgt totalMs (Num maxMs)")
    case True
    with res have "d_ms r = maxMs" by simp
    then show ?thesis by (simp add: maxMs_def)
  next
    case False
    with res have t: "totalMs = Num (d_ms r)" by simp
    from pos t have "0 < d_ms r" by simp
    moreover from False t have "d_ms r \<le> maxMs" by simp
    ultimately show ?thesis by simp
  qed
  then show ?thesis by (simp add: maxMs_def)
qed

text \<open>The examples of the legacy buckets and of the empty text.\<close>

lemma parseDuration_legacy_and_empty:
  "map_option d_ms (parseDurationToMs ''15d'') = Some 1296000000"
  "parseDurationToMs [] = None"
  by code_simp+

text \<open>
  Claim C6 does not hold of the code: \<^verbatim>\<open>parseDurationToMs("2d12h")\<close> does not yield
  129600000 ms, and a successful parse can yield a number of milliseconds that is not
  positive. For \<^verbatim>\<open>2d12h\<close>, a form that the comments of the function and the usage text of
  \<^verbatim>\<open>?premium-gen\<close> give as valid, the scanner finds \<^verbatim>\<open>12h\<close> only, since \<^verbatim>\<open>\b\<close> does not hold
  between \<^verbatim>\<open>d\<close> and \<^verbatim>\<open>1\<close>: the result is 43200000 ms, the duration of 12 hours. For
  \<^verbatim>\<open>0.5\<close> the legacy path takes the number of days, which passes its test \<^verbatim>\<open>n > 0\<close>, and
  rounds it down to 0 afterwards: the parse succeeds with 0 ms, where the path of the
  scanner refuses a total that is not positive.
\<close>

theorem parseDuration_examples_fail:
  "map_option d_ms (parseDurationToMs ''2d12h'') = Some 43200000
   \<and> map_option d_ms (parseDurationToMs ''2d12h'') \<noteq> Some 129600000
   \<and> map_option d_ms (parseDurationToMs ''0.5'') = Some 0"
  by code_simp

theorem parseDuration_examples_fail_witness:
  "map_option d_ms (parseDurationToMs ''2d12h'') = map_option d_ms (parseDurationToMs ''12h'')
   \<and> map_option d_ms (parseDurationToMs ''0.5'') = Some 0"
proof -
  have e: "map_option d_ms (parseDurationToMs ''12h'') = Some 43200000"
    by code_simp
  note t = parseDuration_examples_fail
  from t have a: "map_option d_ms (parseDurationToMs ''2d12h'') = Some 43200000"
    by (rule conjunct1)
  from t have b: "map_option d_ms (parseDurationToMs ''0.5'') = Some 0"
    by blast
  show ?thesis unfolding a e b by simp
qed

section \<open>Properties of the ratings\<close>

lemma toFixed2_near:
  assumes "\<bar>q\<bar> < 10 ^ 21"
  shows "\<exists>n::int. toFixed2 (Num q) = to_double (of_int n / 100) \<and> \<bar>of_int n / 100 - q\<bar> \<le> 1 / 200"
proof -
  define n where "n = \<lfloor>\<bar>q\<bar> * 100 + 1 / 2\<rfloor>"
  define x :: rat where "x = of_int n / 100"
  have lo: "of_int n \<le> \<bar>q\<bar> * 100 + 1 / 2" and hi: "\<bar>q\<bar> * 100 + 1 / 2 < of_int n + 1"
    unfolding n_def by linarith+
  have n100: "of_int n = x * 100"
    by (simp add: x_def)
  have up: "x - \<bar>q\<bar> \<le> 1 / 200"
    using lo unfolding n100 by linarith
  have down: "\<bar>q\<bar> - x \<le> 1 / 200"
    using hi unfolding n100 by linarith
  show ?thesis
  proof (cases "q < 0")
    case True
    have "toFixed2 (Num q) = to_double (of_int (- n) / 100)"
      using assms True by (simp add: toFixed2_def Let_def n_def)
    moreover have "of_int (- n) / 100 = - x"
      by (simp add: x_def)
    moreover have "\<bar>- x - q\<bar> \<le> 1 / 200"
      using up down True by linarith
    ultimately show ?thesis by metis
  next
    case False
    have "toFixed2 (Num q) = to_double (of_int n / 100)"
      using assms False by (simp add: toFixed2_def Let_def n_def)
    moreover have "\<bar>x - q\<bar> \<le> 1 / 200"
      using up down False by linarith
    ultimately show ?thesis unfolding x_def by blast
  qed
qed

lemma push_review_fields:
  "b_reviews (push_review old score)
     = (case old of None \<Rightarrow> [] | Some b \<Rightarrow> b_reviews b) @ [score]"
  "b_count (push_review old score) = length (b_reviews (push_review old score))"
  "b_avg (push_review old score)
     = toFixed2 (jdiv_pos (foldl jadd (Num 0) (b_reviews (push_review old score)))
                          (of_nat (length (b_reviews (push_review old score)))))"
  by (simp_all add: push_review_def Let_def split: option.splits)

lemma rate_trade_first:
  assumes "startsWith customId ''rate:''"
    and "part (split_on CHR '':'' customId) 1 = Some kind" and "kind = ''trade'' \<or> kind = ''mm''"
    and "part (split_on CHR '':'' customId) 2 = Some tn" and "tn \<noteq> []"
    and "part (split_on CHR '':'' customId) 3 = Some sid" and "sid \<noteq> []"
    and "score = parseInt10 (part (split_on CHR '':'' customId) 4)" and "\<not> falsy_num score"
  shows "rate_block st uid customId
         = (if tn @ ''_'' @ uid @ ''_mm'' \<in> rated st then (st, AlreadyRated)
            else (st\<lparr> rv_trade := (rv_trade st)(sid \<mapsto> push_review (rv_trade st sid) score),
                      rated := insert (tn @ ''_'' @ uid @ ''_mm'') (rated st) \<rparr>,
                  Thanks score))"
  using assms by (auto simp: rate_block_def Let_def addReviewForStaff_def)

lemma rate_service_first:
  assumes "startsWith customId ''rate:''"
    and "part (split_on CHR '':'' customId) 1 = Some ''service''"
    and "part (split_on CHR '':'' customId) 2 = Some tn" and "tn \<noteq> []"
    and "score = parseInt10 (part (split_on CHR '':'' customId) 3)" and "\<not> falsy_num score"
  shows "rate_block st uid customId
         = (if tn @ ''_'' @ uid @ ''_service'' \<in> rated st then (st, AlreadyRated)
            else (st\<lparr> rv_service := (rv_service st)(''global'' \<mapsto> push_review (rv_service st ''global'') score),
                      rated := insert (tn @ ''_'' @ uid @ ''_service'') (rated st) \<rparr>,
                  Thanks score))"
  using assms by (auto simp: rate_block_def Let_def addReviewForService_def)


lemma push_review_spec:
  "b_reviews (push_review old score) = (case old of None \<Rightarrow> [] | Some b \<Rightarrow> b_reviews b) @ [score]
   \<and> b_count (push_review old score) = length (b_reviews (push_review old score))
   \<and> b_avg (push_review old score)
       = toFixed2 (jdiv_pos (foldl jadd (Num 0) (b_reviews (push_review old score)))
                            (of_nat (b_count (push_review old score))))
   \<and> (\<forall>m. jdiv_pos (foldl jadd (Num 0) (b_reviews (push_review old score)))
                     (of_nat (b_count (push_review old score))) = Num m \<and> \<bar>m\<bar> < 10 ^ 21
            \<longrightarrow> (\<exists>n::int. b_avg (push_review old score) = to_double (of_int n / 100)
                          \<and> \<bar>of_int n / 100 - m\<bar> \<le> 1 / 200))"
proof -
  have c: "b_count (push_review old score) = length (b_reviews (push_review old score))"
    by (rule push_review_fields)
  have a: "b_avg (push_review old score)
       = toFixed2 (jdiv_pos (foldl jadd (Num 0) (b_reviews (push_review old score)))
                            (of_nat (b_count (push_review old score))))"
    unfolding c by (rule push_review_fields)
  have n: "\<exists>n::int. b_avg (push_review old score) = to_double (of_int n / 100)
                          \<and> \<bar>of_int n / 100 - m\<bar> \<le> 1 / 200"
    if "jdiv_pos (foldl jadd (Num 0) (b_reviews (push_review old score)))
                     (of_nat (b_count (push_review old score))) = Num m" and "\<bar>m\<bar> < 10 ^ 21" for m
    using toFixed2_near [OF that(2)] a that(1) by simp
  from push_review_fields(1) [of old score] c a n show ?thesis by blast
qed

text \<open>
  What the block of the ratings would do if the handler reached it. The first run for a
  rating button with a ticket name, a staff id (for the kind \<^verbatim>\<open>trade\<close>) and a score
  that is a number other than zero, by a user whose key for that ticket and kind is not
  marked, is answered with thanks; the bucket of the staff member (of the service, for
  the kind \<^verbatim>\<open>service\<close>) then holds the former scores followed by the new one, their
  number as \<^verbatim>\<open>count\<close> and their mean rounded to two decimals as \<^verbatim>\<open>avg\<close> (for a mean
  \<open>m\<close> below \<open>10^21\<close> in size: the number nearest to some \<open>n / 100\<close> that is within
  \<open>1 / 200\<close> of \<open>m\<close>); the other buckets are as they were and the key is marked. The same
  run once more is refused as already rated and changes nothing.
\<close>

lemma rate_block_dedup:
  assumes "startsWith customId ''rate:''" and "ps = split_on CHR '':'' customId"
    and "st1 = fst (rate_block st uid customId)"
  shows "((part ps 1 = Some ''trade'' \<or> part ps 1 = Some ''mm'')
            \<and> part ps 2 = Some tn \<and> tn \<noteq> [] \<and> part ps 3 = Some sid \<and> sid \<noteq> []
            \<and> score = parseInt10 (part ps 4) \<and> \<not> falsy_num score
            \<and> tn @ ''_'' @ uid @ ''_mm'' \<notin> rated st
          \<longrightarrow> snd (rate_block st uid customId) = Thanks score
              \<and> (\<exists>b. rv_trade st1 = (rv_trade st)(sid \<mapsto> b)
                    \<and> b_reviews b = (case rv_trade st sid of None \<Rightarrow> [] | Some old \<Rightarrow> b_reviews old) @ [score]
                    \<and> b_count b = length (b_reviews b)
                    \<and> b_avg b = toFixed2 (jdiv_pos (foldl jadd (Num 0) (b_reviews b)) (of_nat (b_count b)))
                    \<and> (\<forall>m. jdiv_pos (foldl jadd (Num 0) (b_reviews b)) (of_nat (b_count b)) = Num m
                              \<and> \<bar>m\<bar> < 10 ^ 21
                            \<longrightarrow> (\<exists>n::int. b_avg b = to_double (of_int n / 100)
                                          \<and> \<bar>of_int n / 100 - m\<bar> \<le> 1 / 200)))
              \<and> rv_service st1 = rv_service st
              \<and> rated st1 = insert (tn @ ''_'' @ uid @ ''_mm'') (rated st)
              \<and> rate_block st1 uid customId = (st1, AlreadyRated))
       \<and> (part ps 1 = Some ''service''
            \<and> part ps 2 = Some tn \<and> tn \<noteq> []
            \<and> score = parseInt10 (part ps 3) \<and> \<not> falsy_num score
            \<and> tn @ ''_'' @ uid @ ''_service'' \<notin> rated st
          \<longrightarrow> snd (rate_block st uid customId) = Thanks score
              \<and> (\<exists>b. rv_service st1 = (rv_service st)(''global'' \<mapsto> b)
                    \<and> b_reviews b = (case rv_service st ''global'' of None \<Rightarrow> [] | Some old \<Rightarrow> b_reviews old) @ [score]
                    \<and> b_count b = length (b_reviews b)
                    \<and> b_avg b = toFixed2 (jdiv_pos (foldl jadd (Num 0) (b_reviews b)) (of_nat (b_count b)))
                    \<and> (\<forall>m. jdiv_pos (foldl jadd (Num 0) (b_reviews b)) (of_nat (b_count b)) = Num m
                              \<and> \<bar>m\<bar> < 10 ^ 21
                            \<longrightarrow> (\<exists>n::int. b_avg b = to_double (of_int n / 100)
                                          \<and> \<bar>of_int n / 100 - m\<bar> \<le> 1 / 200)))
              \<and> rv_trade st1 = rv_trade st
              \<and> rated st1 = insert (tn @ ''_'' @ uid @ ''_service'') (rated st)
              \<and> rate_block st1 uid customId = (st1, AlreadyRated))"
proof (rule conjI; rule impI)
  assume h: "(part ps 1 = Some ''trade'' \<or> part ps 1 = Some ''mm'')
            \<and> part ps 2 = Some tn \<and> tn \<noteq> [] \<and> part ps 3 = Some sid \<and> sid \<noteq> []
            \<and> score = parseInt10 (part ps 4) \<and> \<not> falsy_num score
            \<and> tn @ ''_'' @ uid @ ''_mm'' \<notin> rated st"
  then obtain kind where k: "part (split_on CHR '':'' customId) 1 = Some kind"
    and kk: "kind = ''trade'' \<or> kind = ''mm''"
    unfolding assms(2) by blast
  from h have p2: "part (split_on CHR '':'' customId) 2 = Some tn" and tn: "tn \<noteq> []"
    and p3: "part (split_on CHR '':'' customId) 3 = Some sid" and sid: "sid \<noteq> []"
    and sc: "score = parseInt10 (part (split_on CHR '':'' customId) 4)" and ok: "\<not> falsy_num score"
    and fresh: "tn @ ''_'' @ uid @ ''_mm'' \<notin> rated st"
    unfolding assms(2) by blast+
  note f = rate_trade_first [OF assms(1) k kk p2 tn p3 sid sc ok]
  have r: "rate_block st uid customId
         = (st\<lparr> rv_trade := (rv_trade st)(sid \<mapsto> push_review (rv_trade st sid) score),
                rated := insert (tn @ ''_'' @ uid @ ''_mm'') (rated st) \<rparr>,
            Thanks score)"
    using f [of st uid] fresh by simp
  have s1: "st1 = st\<lparr> rv_trade := (rv_trade st)(sid \<mapsto> push_review (rv_trade st sid) score),
                rated := insert (tn @ ''_'' @ uid @ ''_mm'') (rated st) \<rparr>"
    by (simp add: assms(3) r)
  have again: "rate_block st1 uid customId = (st1, AlreadyRated)"
    using f [of st1 uid] by (simp add: s1)
  have bucket: "\<exists>b. rv_trade st1 = (rv_trade st)(sid \<mapsto> b)
                    \<and> b_reviews b = (case rv_trade st sid of None \<Rightarrow> [] | Some old \<Rightarrow> b_reviews old) @ [score]
                    \<and> b_count b = length (b_reviews b)
                    \<and> b_avg b = toFixed2 (jdiv_pos (foldl jadd (Num 0) (b_reviews b)) (of_nat (b_count b)))
                    \<and> (\<forall>m. jdiv_pos (foldl jadd (Num 0) (b_reviews b)) (of_nat (b_count b)) = Num m
                              \<and> \<bar>m\<bar> < 10 ^ 21
                            \<longrightarrow> (\<exists>n::int. b_avg b = to_double (of_int n / 100)
                                          \<and> \<bar>of_int n / 100 - m\<bar> \<le> 1 / 200))"
    by (rule exI [of _ "push_review (rv_trade st sid) score"], rule conjI, simp add: s1,
        rule push_review_spec)
  show "snd (rate_block st uid customId) = Thanks score
              \<and> (\<exists>b. rv_trade st1 = (rv_trade st)(sid \<mapsto> b)
                    \<and> b_reviews b = (case rv_trade st sid of None \<Rightarrow> [] | Some old \<Rightarrow> b_reviews old) @ [score]
                    \<and> b_count b = length (b_reviews b)
                    \<and> b_avg b = toFixed2 (jdiv_pos (foldl jadd (Num 0) (b_reviews b)) (of_nat (b_count b)))
                    \<and> (\<forall>m. jdiv_pos (foldl jadd (Num 0) (b_reviews b)) (of_nat (b_count b)) = Num m
                              \<and> \<bar>m\<bar> < 10 ^ 21
                            \<longrightarrow> (\<exists>n::int. b_avg b = to_double (of_int n / 100)
                                          \<and> \<bar>of_int n / 100 - m\<bar> \<le> 1 / 200)))
              \<and> rv_service st1 = rv_service st
              \<and> rated st1 = insert (tn @ ''_'' @ uid @ ''_mm'') (rated st)
              \<and> rate_block st1 uid customId = (st1, AlreadyRated)"
    using bucket again by (simp add: r s1)
next
  assume h: "part ps 1 = Some ''service''
            \<and> part ps 2 = Some tn \<and> tn \<noteq> []
            \<and> score = parseInt10 (part ps 3) \<and> \<not> falsy_num score
            \<and> tn @ ''_'' @ uid @ ''_service'' \<notin> rated st"
  then have k: "part (split_on CHR '':'' customId) 1 = Some ''service''"
    and p2: "part (split_on CHR '':'' customId) 2 = Some tn" and tn: "tn \<noteq> []"
    and sc: "score = parseInt10 (part (split_on CHR '':'' customId) 3)" and ok: "\<not> falsy_num score"
    and fresh: "tn @ ''_'' @ uid @ ''_service'' \<notin> rated st"
    unfolding assms(2) by blast+
  note f = rate_service_first [OF assms(1) k p2 tn sc ok]
  have r: "rate_block st uid customId
         = (st\<lparr> rv_service := (rv_service st)(''global'' \<mapsto> push_review (rv_service st ''global'') score),
                rated := insert (tn @ ''_'' @ uid @ ''_service'') (rated st) \<rparr>,
            Thanks score)"
    using f [of st uid] fresh by simp
  have s1: "st1 = st\<lparr> rv_service := (rv_service st)(''global'' \<mapsto> push_review (rv_service st ''global'') score),
                rated := insert (tn @ ''_'' @ uid @ ''_service'') (rated st) \<rparr>"
    by (simp add: assms(3) r)
  have again: "rate_block st1 uid customId = (st1, AlreadyRated)"
    using f [of st1 uid] by (simp add: s1)
  have bucket: "\<exists>b. rv_service st1 = (rv_service st)(''global'' \<mapsto> b)
                    \<and> b_reviews b = (case rv_service st ''global'' of None \<Rightarrow> [] | Some old \<Rightarrow> b_reviews old) @ [score]
                    \<and> b_count b = length (b_reviews b)
                    \<and> b_avg b = toFixed2 (jdiv_pos (foldl jadd (Num 0) (b_reviews b)) (of_nat (b_count b)))
                    \<and> (\<forall>m. jdiv_pos (foldl jadd (Num 0) (b_reviews b)) (of_nat (b_count b)) = Num m
                              \<and> \<bar>m\<bar> < 10 ^ 21
                            \<longrightarrow> (\<exists>n::int. b_avg b = to_double (of_int n / 100)
                                          \<and> \<bar>of_int n / 100 - m\<bar> \<le> 1 / 200))"
    by (rule exI [of _ "push_review (rv_service st ''global'') score"], rule conjI, simp add: s1,
        rule push_review_spec)
  show "snd (rate_block st uid customId) = Thanks score
              \<and> (\<exists>b. rv_service st1 = (rv_service st)(''global'' \<mapsto> b)
                    \<and> b_reviews b = (case rv_service st ''global'' of None \<Rightarrow> [] | Some old \<Rightarrow> b_reviews old) @ [score]
                    \<and> b_count b = length (b_reviews b)
                    \<and> b_avg b = toFixed2 (jdiv_pos (foldl jadd (Num 0) (b_reviews b)) (of_nat (b_count b)))
                    \<and> (\<forall>m. jdiv_pos (foldl jadd (Num 0) (b_reviews b)) (of_nat (b_count b)) = Num m
                              \<and> \<bar>m\<bar> < 10 ^ 21
                            \<longrightarrow> (\<exists>n::int. b_avg b = to_double (of_int n / 100)
                                          \<and> \<bar>of_int n / 100 - m\<bar> \<le> 1 / 200)))
              \<and> rv_trade st1 = rv_trade st
              \<and> rated st1 = insert (tn @ ''_'' @ uid @ ''_service'') (rated st)
              \<and> rate_block st1 uid customId = (st1, AlreadyRated)"
    using bucket again by (simp add: r s1)
qed

lemma rate_block_example:
  "snd (rate_block ex_ratings ''888888888888888888'' ex_button) = Thanks (Num 4)
   \<and> map_option b_reviews
        (rv_trade (fst (rate_block ex_ratings ''888888888888888888'' ex_button)) ''222222222222222222'')
       = Some [Num 5, Num 4, Num 4]
   \<and> map_option b_count
        (rv_trade (fst (rate_block ex_ratings ''888888888888888888'' ex_button)) ''222222222222222222'')
       = Some 3
   \<and> map_option b_avg
        (rv_trade (fst (rate_block ex_ratings ''888888888888888888'' ex_button)) ''222222222222222222'')
       = Some (to_double (433 / 100))
   \<and> rate_block (fst (rate_block ex_ratings ''888888888888888888'' ex_button))
        ''888888888888888888'' ex_button
       = (fst (rate_block ex_ratings ''888888888888888888'' ex_button), AlreadyRated)"
proof -
  have h0: "startsWith ex_button ''rate:''"
    by code_simp
  have h: "(part (split_on CHR '':'' ex_button) 1 = Some ''trade''
              \<or> part (split_on CHR '':'' ex_button) 1 = Some ''mm'')
            \<and> part (split_on CHR '':'' ex_button) 2 = Some ''ticket-bob'' \<and> ''ticket-bob'' \<noteq> []
            \<and> part (split_on CHR '':'' ex_button) 3 = Some ''222222222222222222''
            \<and> ''222222222222222222'' \<noteq> []
            \<and> Num 4 = parseInt10 (part (split_on CHR '':'' ex_button) 4) \<and> \<not> falsy_num (Num 4)
            \<and> ''ticket-bob'' @ ''_'' @ ''888888888888888888'' @ ''_mm'' \<notin> rated ex_ratings"
    by code_simp
  note t = rate_block_dedup [where customId = ex_button and ps = "split_on CHR '':'' ex_button"
      and st = ex_ratings and uid = "''888888888888888888''"
      and ?st1.0 = "fst (rate_block ex_ratings ''888888888888888888'' ex_button)"
      and tn = "''ticket-bob''" and sid = "''222222222222222222''" and score = "Num 4",
      OF h0 refl refl, THEN conjunct1, rule_format, OF h]
  from t obtain b where
    b: "rv_trade (fst (rate_block ex_ratings ''888888888888888888'' ex_button))
          = (rv_trade ex_ratings)(''222222222222222222'' \<mapsto> b)"
    and br: "b_reviews b = (case rv_trade ex_ratings ''222222222222222222'' of
                              None \<Rightarrow> [] | Some old \<Rightarrow> b_reviews old) @ [Num 4]"
    and bc: "b_count b = length (b_reviews b)"
    and ba: "b_avg b = toFixed2 (jdiv_pos (foldl jadd (Num 0) (b_reviews b)) (of_nat (b_count b)))"
    by blast
  have rs: "b_reviews b = [Num 5, Num 4, Num 4]"
    using br by (simp add: ex_ratings_def)
  have cnt: "b_count b = 3"
    using bc rs by simp
  have av: "toFixed2 (jdiv_pos (foldl jadd (Num 0) [Num 5, Num 4, Num 4]) (of_nat 3))
              = to_double (433 / 100)"
    by code_simp
  have avg: "b_avg b = to_double (433 / 100)"
    using ba rs cnt av by simp
  from t have r1: "snd (rate_block ex_ratings ''888888888888888888'' ex_button) = Thanks (Num 4)"
    and r2: "rate_block (fst (rate_block ex_ratings ''888888888888888888'' ex_button))
        ''888888888888888888'' ex_button
       = (fst (rate_block ex_ratings ''888888888888888888'' ex_button), AlreadyRated)"
    by blast+
  from r1 r2 rs cnt avg show ?thesis
    by (simp add: b)
qed

text \<open>
  Claim C9 does not hold of the program: no rating is recorded at all. A press of a rating
  button, whatever the ratings, the user and the id of the button, ends in the
  \<^verbatim>\<open>ReferenceError\<close> of the statements that stand before the block of the ratings; the
  ratings are left as they were (no score is added, no key is marked) and the press is not
  answered. So the first press for the ticket \<^verbatim>\<open>ticket-bob\<close>, the staff member
  222222222222222222 and the score 4 by the user 888888888888888888 leaves the scores of
  that staff member at 5, 4, where the block, had it been run, would have answered with
  thanks and left them at 5, 4, 4.
\<close>

theorem rate_press_records_nothing:
  "rate_button st userId customId = (st, Inl ReferenceError)
   \<and> fst (rate_button ex_ratings ''888888888888888888'' ex_button) = ex_ratings
   \<and> snd (rate_button ex_ratings ''888888888888888888'' ex_button) \<noteq> Inr (Some (Thanks (Num 4)))
   \<and> map_option b_reviews (rv_trade ex_ratings ''222222222222222222'') = Some [Num 5, Num 4]
   \<and> snd (rate_block ex_ratings ''888888888888888888'' ex_button) = Thanks (Num 4)
   \<and> map_option b_reviews
        (rv_trade (fst (rate_block ex_ratings ''888888888888888888'' ex_button)) ''222222222222222222'')
       = Some [Num 5, Num 4, Num 4]"
proof -
  have a: "rate_button s u c = (s, Inl ReferenceError)" for s u c
    by (simp add: rate_button_def handler_channel_def)
  have b: "map_option b_reviews (rv_trade ex_ratings ''222222222222222222'') = Some [Num 5, Num 4]"
    by (simp add: ex_ratings_def)
  from a b rate_block_example show ?thesis by simp
qed

end
